theory Spec2Isabelle
  imports Complex_Main
begin

section \<open>Multi-objective Bayesian optimisation round (src/mobo.py)\<close>

text \<open>
  A shallow embedding of class \<open>MOBO\<close>: its methods \<open>_optimize\<close>,
  \<open>compute_posteriors\<close>, \<open>compute_acquisitions\<close> and \<open>optimize\<close>.

  Conventions of the embedding.
  \<^item> Python floats and numpy's float64 entries are idealised as \<open>real\<close>: the arrays
    of a round hold finite values, and its arithmetic on them is exact. Two steps of
    which a property speaks about the floating-point values themselves are embedded
    in binary64, with rounding, overflow, NaN and infinities: the response
    normalisation, whose result the round stores by its finite values, and the
    scaling of the acquisition scores (\<open>compute_acquisitions64\<close>).
  \<^item> A numpy array is a value of \<open>ndarray\<close>: one- or two-dimensional. The stacked
    three-dimensional inputs that the assertions of \<open>compute_posteriors\<close> and
    \<open>compute_acquisitions\<close> also admit are outside the model. Every two-dimensional
    array of a run has rows of length \<open>shape1\<close>, as numpy guarantees.
  \<^item> \<open>isinstance\<close> assertions are discharged by the types of the arguments; every
    other \<open>assert\<close> is a check of the model that raises \<open>AssertionError\<close>.
  \<^item> The training arrays are passed by reference: they live in a store, so that
    aliasing (\<open>Y_train_orig_1 = Y_train_1\<close>) is visible. Arrays created later in the
    round are passed on by value.
  \<^item> What the round imports from scipy, numpy.random and the bayeso package is not
    part of the file. It is taken as a parameter (record \<open>env\<close>), or, for three
    helpers of \<open>utils_bo\<close>, modelled from the specification.
  \<^item> \<open>self.logger.debug\<close> calls (under \<open>self.debug\<close>) have no effect on the result and
    are left out.
  \<^item> Assertions are enabled (Python does not run with \<open>-O\<close>). The first assertion of
    \<open>compute_acquisitions\<close>, that \<open>X\<close> has one, two or three dimensions, holds of
    every \<open>ndarray\<close> and has no check.
  \<^item> The constructor is not embedded: \<open>mobo\<close> holds the attributes of an engine that
    has been constructed. What the constructor asserts of the domain, \<open>lo \<le> hi\<close> in
    every dimension, is a hypothesis where a property needs it.
\<close>

subsection \<open>Errors and arrays\<close>

datatype error = AssertionError | TypeError | ValueError | IndexError | External string

type_synonym vec = "real list"

record matrix =
  shape1 :: nat
  rows :: "vec list"

datatype ndarray = Arr1 vec | Arr2 matrix

fun shape :: "ndarray \<Rightarrow> nat list" where
  "shape (Arr1 v) = [length v]"
| "shape (Arr2 m) = [length (rows m), shape1 m]"

type_synonym bounds = "(real \<times> real) list"

datatype hyp = Scalar real | Params vec

type_synonym hyps = "string \<Rightarrow> hyp option"

type_synonym prior = "ndarray \<Rightarrow> ndarray"

text \<open>The candidate argument of an acquisition closure, and the closure.\<close>

type_synonym objective = "ndarray \<Rightarrow> error + vec"

text \<open>The acquisition rule that \<open>utils_bo.choose_fun_acquisition\<close> returns:
  \<open>fun_acquisition(pred_mean, pred_std, Y_train)\<close>, one score per candidate.\<close>

type_synonym acquisition_rule = "vec \<Rightarrow> vec \<Rightarrow> ndarray \<Rightarrow> error + vec"

subsection \<open>Fallible pure code\<close>

definition on_ok :: "error + 'a \<Rightarrow> ('a \<Rightarrow> error + 'b) \<Rightarrow> error + 'b" where
  "on_ok r f = (case r of Inl e \<Rightarrow> Inl e | Inr x \<Rightarrow> f x)"

definition check :: "bool \<Rightarrow> error + unit" where
  "check b = (if b then Inr () else Inl AssertionError)"

subsection \<open>numpy operations the methods use\<close>

text \<open>\<open>np.atleast_2d(X)\<close> for a one-dimensional \<open>X\<close>: one row.\<close>

definition atleast_2d :: "vec \<Rightarrow> ndarray" where
  "atleast_2d v = Arr2 \<lparr>shape1 = length v, rows = [v]\<rparr>"

text \<open>\<open>np.squeeze(A, axis=1)\<close>: the axis must exist and have length one.\<close>

fun squeeze_axis1 :: "ndarray \<Rightarrow> error + vec" where
  "squeeze_axis1 (Arr1 v) = Inl ValueError"
| "squeeze_axis1 (Arr2 m) =
     (if shape1 m = 1 then Inr (map (\<lambda>r. r ! 0) (rows m)) else Inl ValueError)"

text \<open>\<open>c * A\<close> and \<open>A *= c\<close> on a one-dimensional array.\<close>

definition np_scale :: "real \<Rightarrow> vec \<Rightarrow> vec" where
  "np_scale c a = map (\<lambda>y. c * y) a"

text \<open>\<open>A + B\<close> on one-dimensional arrays: elementwise; an array of length one is
  broadcast; any other pair of lengths raises \<open>ValueError\<close>.\<close>

definition np_add :: "vec \<Rightarrow> vec \<Rightarrow> error + vec" where
  "np_add a b =
     (if length a = length b then Inr (map2 (\<lambda>x y. x + y) a b)
      else if length a = 1 then Inr (map (\<lambda>y. a ! 0 + y) b)
      else if length b = 1 then Inr (map (\<lambda>x. x + b ! 0) a)
      else Inl ValueError)"

text \<open>\<open>np.array(list_next_point)\<close>: a list of equally long rows is a two-dimensional
  array, the empty list is a one-dimensional array of length zero, and rows of
  different lengths raise \<open>ValueError\<close>.\<close>

definition np_array :: "vec list \<Rightarrow> error + ndarray" where
  "np_array vs =
     (case vs of
        [] \<Rightarrow> Inr (Arr1 [])
      | v # _ \<Rightarrow>
          if list_all (\<lambda>r. length r = length v) vs
          then Inr (Arr2 \<lparr>shape1 = length v, rows = vs\<rparr>)
          else Inl ValueError)"

text \<open>\<open>Y[:, [j]]\<close>: advanced indexing, a fresh array holding column \<open>j\<close> as an
  \<open>N \<times> 1\<close> array; \<open>IndexError\<close> when the array has no such axis or column.\<close>

fun column :: "nat \<Rightarrow> ndarray \<Rightarrow> error + ndarray" where
  "column j (Arr1 v) = Inl IndexError"
| "column j (Arr2 m) =
     (if j < shape1 m then Inr (Arr2 \<lparr>shape1 = 1, rows = map (\<lambda>r. [r ! j]) (rows m)\<rparr>)
      else Inl IndexError)"

text \<open>\<open>A[0]\<close> on a two-dimensional array: its first row.\<close>

definition first_row :: "matrix \<Rightarrow> error + vec" where
  "first_row m = (case rows m of [] \<Rightarrow> Inl IndexError | r # _ \<Rightarrow> Inr r)"

text \<open>\<open>p[np.newaxis, ...]\<close> on a one-dimensional array: a batch of one row.\<close>

definition newaxis :: "vec \<Rightarrow> ndarray" where
  "newaxis p = Arr2 \<lparr>shape1 = length p, rows = [p]\<rparr>"

subsection \<open>Binary64 values\<close>

text \<open>
  IEEE 754 binary64 with rounding to nearest, ties to even: the arithmetic of numpy's
  \<open>float64\<close>. A binary64 value is a finite real, an infinity or NaN. The two zeros
  are not distinguished: a quotient of a non-zero value by zero takes the sign of its
  numerator. The result of an operation on finite operands is the exact result,
  rounded.
\<close>

datatype float64 = Finite real | PosInf | NegInf | NaN


fun lt64 :: "float64 \<Rightarrow> float64 \<Rightarrow> bool" where
  "lt64 (Finite x) (Finite y) = (x < y)"
| "lt64 NaN _ = False"
| "lt64 _ NaN = False"
| "lt64 PosInf _ = False"
| "lt64 _ NegInf = False"
| "lt64 _ PosInf = True"
| "lt64 NegInf _ = True"

fun le64 :: "float64 \<Rightarrow> float64 \<Rightarrow> bool" where
  "le64 (Finite x) (Finite y) = (x \<le> y)"
| "le64 NaN _ = False"
| "le64 _ NaN = False"
| "le64 _ PosInf = True"
| "le64 NegInf _ = True"
| "le64 PosInf _ = False"
| "le64 _ NegInf = False"

text \<open>Rounding to the nearest integer, a tie to the even one.\<close>

definition round_half_even :: "real \<Rightarrow> int" where
  "round_half_even x =
     (let n = \<lfloor>x\<rfloor>; d = x - of_int n
      in if d < 1 / 2 then n else if 1 / 2 < d then n + 1 else if even n then n else n + 1)"

text \<open>The exponent of the unit in the last place at \<open>x\<close>: a significand of 53 bits,
  and the fixed spacing \<open>2 ^ - 1074\<close> of the subnormal values below \<open>2 ^ - 1022\<close>.\<close>

definition ulp_exponent :: "real \<Rightarrow> int" where
  "ulp_exponent x = max (\<lfloor>log 2 \<bar>x\<bar>\<rfloor> - 52) (- 1074)"

text \<open>\<open>x\<close> rounded to the nearest multiple of its unit in the last place; the exponent
  is not bounded above here.\<close>

definition round64 :: "real \<Rightarrow> real" where
  "round64 x =
     (if x = 0 then 0
      else of_int (round_half_even (x / 2 powr of_int (ulp_exponent x)))
             * 2 powr of_int (ulp_exponent x))"

text \<open>The binary64 value of an exact result: the rounded value, or an infinity when
  that reaches \<open>2 ^ 1024\<close>.\<close>

definition fl64 :: "real \<Rightarrow> float64" where
  "fl64 x = (let r = round64 x
             in if 2 ^ 1024 \<le> r then PosInf else if r \<le> - (2 ^ 1024) then NegInf else Finite r)"

text \<open>The operations \<open>*\<close>, \<open>-\<close> and \<open>/\<close> of numpy on \<open>float64\<close>. A division by zero
  is no error in numpy: it yields NaN or an infinity (and a warning).\<close>

fun mul64 :: "float64 \<Rightarrow> float64 \<Rightarrow> float64" where
  "mul64 (Finite x) (Finite y) = fl64 (x * y)"
| "mul64 NaN _ = NaN"
| "mul64 _ NaN = NaN"
| "mul64 (Finite x) PosInf = (if x = 0 then NaN else if 0 < x then PosInf else NegInf)"
| "mul64 (Finite x) NegInf = (if x = 0 then NaN else if 0 < x then NegInf else PosInf)"
| "mul64 PosInf (Finite y) = (if y = 0 then NaN else if 0 < y then PosInf else NegInf)"
| "mul64 NegInf (Finite y) = (if y = 0 then NaN else if 0 < y then NegInf else PosInf)"
| "mul64 PosInf PosInf = PosInf"
| "mul64 NegInf NegInf = PosInf"
| "mul64 PosInf NegInf = NegInf"
| "mul64 NegInf PosInf = NegInf"

fun sub64 :: "float64 \<Rightarrow> float64 \<Rightarrow> float64" where
  "sub64 (Finite x) (Finite y) = fl64 (x - y)"
| "sub64 NaN _ = NaN"
| "sub64 _ NaN = NaN"
| "sub64 PosInf PosInf = NaN"
| "sub64 NegInf NegInf = NaN"
| "sub64 PosInf _ = PosInf"
| "sub64 NegInf _ = NegInf"
| "sub64 _ PosInf = NegInf"
| "sub64 _ NegInf = PosInf"

fun div64 :: "float64 \<Rightarrow> float64 \<Rightarrow> float64" where
  "div64 (Finite x) (Finite y) =
     (if y = 0 then (if x = 0 then NaN else if 0 < x then PosInf else NegInf) else fl64 (x / y))"
| "div64 NaN _ = NaN"
| "div64 _ NaN = NaN"
| "div64 (Finite x) _ = Finite 0"
| "div64 PosInf (Finite y) = (if 0 \<le> y then PosInf else NegInf)"
| "div64 NegInf (Finite y) = (if 0 \<le> y then NegInf else PosInf)"
| "div64 _ _ = NaN"

text \<open>The finite value that an array of the model holds for a binary64 value. NaN and
  the infinities have none: an entry that would be one of them is unspecified.\<close>

fun the_finite :: "float64 \<Rightarrow> real" where
  "the_finite (Finite x) = x"
| "the_finite _ = undefined"

subsection \<open>Helpers of the bayeso package\<close>

text \<open>Modelled from the spec: \<open>utils_bo.check_points_in_bounds\<close> is not among the
  sources. The specification (round step 7): project the candidates back into the
  domain's bounds, clamping any out-of-bounds coordinate to the nearest bound. A
  coordinate with no bound is left as it is; an argument that is not a batch of
  points is a contract violation. (Definitions \<open>clamp\<close>, \<open>clamp_point\<close> and
  \<open>check_points_in_bounds\<close>.)\<close>

definition clamp :: "real \<Rightarrow> real \<Rightarrow> real \<Rightarrow> real" where
  "clamp lo hi x = (if x < lo then lo else if hi < x then hi else x)"

fun clamp_point :: "bounds \<Rightarrow> vec \<Rightarrow> vec" where
  "clamp_point ((lo, hi) # bs) (x # xs) = clamp lo hi x # clamp_point bs xs"
| "clamp_point [] xs = xs"
| "clamp_point bs [] = []"

fun check_points_in_bounds :: "ndarray \<Rightarrow> bounds \<Rightarrow> error + matrix" where
  "check_points_in_bounds (Arr1 v) bs = Inl AssertionError"
| "check_points_in_bounds (Arr2 m) bs = Inr (m\<lparr>rows := map (clamp_point bs) (rows m)\<rparr>)"

text \<open>Modelled from the spec: \<open>utils_bo.get_best_acquisition_by_evaluation\<close> is not
  among the sources. The specification (restart optimizer): among all candidates,
  select the one with the lowest value when re-evaluated on the combined objective;
  on ties the first-found candidate wins. The helper returns a batch of one row
  (the caller takes its row 0). With no score to compare there is nothing to select
  (\<open>ValueError\<close>); a winning index beyond the candidates is an \<open>IndexError\<close>.
  (Definitions \<open>argmin_from\<close>, \<open>argmin\<close> and \<open>get_best_acquisition_by_evaluation\<close>.)\<close>

fun argmin_from :: "nat \<Rightarrow> real \<Rightarrow> nat \<Rightarrow> vec \<Rightarrow> nat" where
  "argmin_from best v i [] = best"
| "argmin_from best v i (y # ys) =
     (if y < v then argmin_from i y (Suc i) ys else argmin_from best v (Suc i) ys)"

definition argmin :: "vec \<Rightarrow> nat" where
  "argmin vals = (case vals of [] \<Rightarrow> 0 | y # ys \<Rightarrow> argmin_from 0 y 1 ys)"

fun get_best_acquisition_by_evaluation :: "ndarray \<Rightarrow> objective \<Rightarrow> error + matrix" where
  "get_best_acquisition_by_evaluation (Arr1 v) f = Inl AssertionError"
| "get_best_acquisition_by_evaluation (Arr2 m) f =
     on_ok (f (Arr2 m)) (\<lambda>acq_vals.
       if acq_vals = [] then Inl ValueError
       else if argmin acq_vals < length (rows m)
       then Inr (m\<lparr>rows := [rows m ! argmin acq_vals]\<rparr>)
       else Inl IndexError)"

text \<open>Modelled from the spec: \<open>utils_bo.normalize_min_max\<close> is not among the
  sources. The specification (round step 2, data model): a min-max-normalised copy
  of the response column, mapped to \<open>[0, 1]\<close> with the column's own minimum and
  maximum; a constant column is not divided by zero but mapped to the fixed
  constant 0. The copy is fresh: the argument is not written to. The arithmetic is
  that of binary64: every entry \<open>y\<close> becomes \<open>(y - min) / (max - min)\<close>, each operation
  rounded; when the array is constant, \<open>max = min\<close>, no quotient is formed.
  \<open>normalize_min_max64\<close> gives the binary64 entries of the result in row-major order,
  \<open>normalize_min_max\<close> the array of their finite values, which the round stores.
  (Definitions \<open>entries\<close>, \<open>min_max_value64\<close>, \<open>min_max_value\<close>, \<open>map_entries\<close>,
  \<open>normalize_min_max64\<close> and \<open>normalize_min_max\<close>; the allocation of the copy is
  \<open>normalized\<close> below.)\<close>

definition entries :: "ndarray \<Rightarrow> vec" where
  "entries A = (case A of Arr1 v \<Rightarrow> v | Arr2 m \<Rightarrow> concat (rows m))"

definition min_max_value64 :: "real \<Rightarrow> real \<Rightarrow> real \<Rightarrow> float64" where
  "min_max_value64 lo hi y =
     (if hi = lo then Finite 0
      else div64 (sub64 (Finite y) (Finite lo)) (sub64 (Finite hi) (Finite lo)))"

definition min_max_value :: "real \<Rightarrow> real \<Rightarrow> real \<Rightarrow> real" where
  "min_max_value lo hi y = the_finite (min_max_value64 lo hi y)"

definition map_entries :: "(real \<Rightarrow> real) \<Rightarrow> ndarray \<Rightarrow> ndarray" where
  "map_entries g A =
     (case A of Arr1 v \<Rightarrow> Arr1 (map g v) | Arr2 m \<Rightarrow> Arr2 (m\<lparr>rows := map (map g) (rows m)\<rparr>))"


definition normalize_min_max :: "ndarray \<Rightarrow> ndarray" where
  "normalize_min_max Y =
     (case entries Y of
        [] \<Rightarrow> Y
      | y # ys \<Rightarrow> map_entries (min_max_value (fold min ys y) (fold max ys y)) Y)"

subsection \<open>The environment of a round\<close>

text \<open>The result of \<open>scipy.optimize.minimize\<close>: the point \<open>x\<close> and the objective
  value \<open>fun\<close> that the local run reports.\<close>

record optimize_result =
  res_x :: vec
  res_fun :: real

text \<open>The attributes of a constructed engine that the methods read. \<open>range_X\<close> is the
  \<open>(D, 2)\<close> array of the domain, one \<open>(lo, hi)\<close> row per dimension; \<open>_get_bounds\<close> of
  the base class returns its rows as a list of pairs.\<close>

record mobo =
  range_X :: bounds
  str_cov :: string
  str_acq :: string
  normalize_Y :: bool
  use_ard :: bool
  prior_mu :: "prior option"
  str_optimizer_method_gp :: string
  str_optimizer_method_bo :: string
  str_modelselection_method :: string
  debug :: bool

text \<open>The constants of \<open>bayeso.constants\<close> and the collaborators the methods call.
  The first argument of the sampling provider, the surrogate fitter and the local
  optimizer is hidden state they may read (a global generator, the operating
  system's entropy); \<open>np.random.RandomState(seed).uniform(low, high)\<close> has none.\<close>

record env =
  MULTIPLIER_ACQ :: real
  ALLOWED_SAMPLING_METHOD :: "string list"
  get_samples :: "nat \<Rightarrow> mobo \<Rightarrow> string \<Rightarrow> int \<Rightarrow> int option \<Rightarrow> error + vec list"
  minimize :: "nat \<Rightarrow> objective \<Rightarrow> vec \<Rightarrow> bounds \<Rightarrow> string \<Rightarrow> error + optimize_result"
  get_optimized_kernel ::
    "nat \<Rightarrow> ndarray \<Rightarrow> ndarray \<Rightarrow> prior option \<Rightarrow> string \<Rightarrow> string \<Rightarrow> string \<Rightarrow> bool \<Rightarrow> bool
      \<Rightarrow> error + (ndarray \<times> ndarray \<times> hyps)"
  predict_with_cov ::
    "ndarray \<Rightarrow> ndarray \<Rightarrow> ndarray \<Rightarrow> ndarray \<Rightarrow> ndarray \<Rightarrow> hyps \<Rightarrow> string \<Rightarrow> prior option \<Rightarrow> bool
      \<Rightarrow> error + (ndarray \<times> ndarray \<times> ndarray)"
  choose_fun_acquisition :: "string \<Rightarrow> hyp option \<Rightarrow> error + acquisition_rule"
  random_state_uniform :: "int \<Rightarrow> real \<Rightarrow> real \<Rightarrow> error + real"

text \<open>Modelled from the spec: \<open>_get_bounds\<close> is a method of the base class, which is
  not among the sources. The specification (external interfaces):
  \<open>getBounds() -> list of (lo, hi)\<close>, the domain's intervals.\<close>

definition get_bounds :: "mobo \<Rightarrow> bounds" where
  "get_bounds self = range_X self"

text \<open>Modelled from the spec: the base class, which sets \<open>self.num_dim\<close>, is not
  among the sources. The specification (data model): the domain is an ordered list
  of D dimensions, and D is the dimensionality every point must have.\<close>

definition num_dim :: "mobo \<Rightarrow> nat" where
  "num_dim self = length (range_X self)"

subsection \<open>State of a run\<close>

text \<open>The calls a run makes to the surrogate fitter, the scalarization generator, the
  sampling provider and the local optimizer, in order, each logged when it is made.
  The calls the acquisition closures make when they are evaluated (posterior
  prediction, the acquisition rule) are not logged.\<close>

datatype event =
    Fit ndarray ndarray
  | Uniform int real real
  | Sample string int "int option"
  | Minimize vec

type_synonym addr = nat

record state =
  heap :: "addr \<Rightarrow> ndarray"
  next_free :: addr
  trace :: "event list"
  ticks :: nat

text \<open>What a run cannot control: the readings of \<open>time.time()\<close>, by call number, and
  the hidden state its collaborators may read.\<close>

record world =
  clock :: "nat \<Rightarrow> real"
  entropy :: nat

type_synonym 'a cmd = "state \<Rightarrow> (error + 'a) \<times> state"

definition ret :: "'a \<Rightarrow> 'a cmd" where
  "ret x = (\<lambda>s. (Inr x, s))"

definition lift :: "error + 'a \<Rightarrow> 'a cmd" where
  "lift r = (\<lambda>s. (r, s))"

definition and_then :: "'a cmd \<Rightarrow> ('a \<Rightarrow> 'b cmd) \<Rightarrow> 'b cmd" where
  "and_then m f = (\<lambda>s. case m s of (Inl e, s') \<Rightarrow> (Inl e, s') | (Inr x, s') \<Rightarrow> f x s')"

definition py_assert :: "bool \<Rightarrow> unit cmd" where
  "py_assert b = lift (check b)"

definition emit :: "event \<Rightarrow> unit cmd" where
  "emit e = (\<lambda>s. (Inr (), s\<lparr>trace := trace s @ [e]\<rparr>))"

definition time_time :: "world \<Rightarrow> real cmd" where
  "time_time w = (\<lambda>s. (Inr (clock w (ticks s)), s\<lparr>ticks := Suc (ticks s)\<rparr>))"

definition deref :: "addr \<Rightarrow> ndarray cmd" where
  "deref p = (\<lambda>s. (Inr (heap s p), s))"

definition alloc :: "ndarray \<Rightarrow> addr cmd" where
  "alloc a = (\<lambda>s. (Inr (next_free s), s\<lparr>heap := (heap s)(next_free s := a), next_free := Suc (next_free s)\<rparr>))"

subsection \<open>\<open>MOBO._optimize\<close>\<close>

text \<open>The loop over \<open>initials\<close>: one local run per initial point, its \<open>x\<close> appended to
  \<open>list_next_point\<close>.\<close>

fun restarts :: "env \<Rightarrow> world \<Rightarrow> mobo \<Rightarrow> objective \<Rightarrow> bounds \<Rightarrow> vec list \<Rightarrow> vec list \<Rightarrow> vec list cmd" where
  "restarts E w self f list_bounds list_next_point [] = ret list_next_point"
| "restarts E w self f list_bounds list_next_point (arr_initial # initials) =
     and_then (emit (Minimize arr_initial)) (\<lambda>_.
     and_then (lift (minimize E (entropy w) f arr_initial list_bounds (str_optimizer_method_bo self))) (\<lambda>next_point.
     restarts E w self f list_bounds (list_next_point @ [res_x next_point]) initials))"

text \<open>The method \<open>_optimize\<close> itself, under the name \<open>priv_optimize\<close> (a name cannot
  start with an underscore).\<close>

definition priv_optimize ::
  "env \<Rightarrow> world \<Rightarrow> mobo \<Rightarrow> objective \<Rightarrow> string \<Rightarrow> int \<Rightarrow> int option \<Rightarrow> (vec \<times> ndarray) cmd" where
  "priv_optimize E w self fun_negative_acquisition str_sampling_method num_samples seed =
     and_then (emit (Sample str_sampling_method num_samples seed)) (\<lambda>_.
     and_then (lift (get_samples E (entropy w) self str_sampling_method num_samples seed)) (\<lambda>initials.
     and_then (restarts E w self fun_negative_acquisition (get_bounds self) [] initials) (\<lambda>list_next_point.
     and_then (lift (np_array list_next_point)) (\<lambda>next_points.
     and_then (lift (get_best_acquisition_by_evaluation next_points fun_negative_acquisition)) (\<lambda>best.
     and_then (lift (first_row best)) (\<lambda>next_point.
     ret (next_point, next_points)))))))"

subsection \<open>\<open>MOBO.compute_posteriors\<close> and \<open>MOBO.compute_acquisitions\<close>\<close>

definition compute_posteriors ::
  "env \<Rightarrow> mobo \<Rightarrow> ndarray \<Rightarrow> ndarray \<Rightarrow> ndarray \<Rightarrow> ndarray \<Rightarrow> ndarray \<Rightarrow> hyps \<Rightarrow> error + (vec \<times> vec)" where
  "compute_posteriors E self X_train Y_train X_test cov_X_X inv_cov_X_X hyps =
     on_ok (check (length (shape X_train) = 2)) (\<lambda>_.
     on_ok (check (length (shape Y_train) = 2)) (\<lambda>_.
     on_ok (check (length (shape X_test) = 2)) (\<lambda>_.
     on_ok (check (length (shape cov_X_X) = 2)) (\<lambda>_.
     on_ok (check (length (shape inv_cov_X_X) = 2)) (\<lambda>_.
     on_ok (check (shape Y_train ! 1 = 1)) (\<lambda>_.
     on_ok (check (shape X_train ! 0 = shape Y_train ! 0)) (\<lambda>_.
     on_ok (check (shape X_test ! 1 = shape X_train ! 1 \<and> shape X_train ! 1 = num_dim self)) (\<lambda>_.
     on_ok (check (shape cov_X_X ! 0 = shape cov_X_X ! 1 \<and> shape cov_X_X ! 1 = shape X_train ! 0)) (\<lambda>_.
     on_ok (check (shape inv_cov_X_X ! 0 = shape inv_cov_X_X ! 1
                 \<and> shape inv_cov_X_X ! 1 = shape X_train ! 0)) (\<lambda>_.
     on_ok (predict_with_cov E X_train Y_train X_test cov_X_X inv_cov_X_X hyps
            (str_cov self) (prior_mu self) (debug self)) (\<lambda>(pred_mean, pred_std, _).
     on_ok (squeeze_axis1 pred_mean) (\<lambda>pred_mean.
     on_ok (squeeze_axis1 pred_std) (\<lambda>pred_std.
     Inr (pred_mean, pred_std))))))))))))))"

definition compute_acquisitions ::
  "env \<Rightarrow> mobo \<Rightarrow> ndarray \<Rightarrow> ndarray \<Rightarrow> ndarray \<Rightarrow> ndarray \<Rightarrow> ndarray \<Rightarrow> hyps \<Rightarrow> error + vec" where
  "compute_acquisitions E self X X_train Y_train cov_X_X inv_cov_X_X hyps =
     on_ok (check (length (shape X_train) = 2)) (\<lambda>_.
     on_ok (check (length (shape Y_train) = 2)) (\<lambda>_.
     on_ok (check (length (shape cov_X_X) = 2)) (\<lambda>_.
     on_ok (check (length (shape inv_cov_X_X) = 2)) (\<lambda>_.
     on_ok (check (shape Y_train ! 1 = 1)) (\<lambda>_.
     on_ok (check (shape X_train ! 0 = shape Y_train ! 0)) (\<lambda>_.
     on_ok (Inr (case X of Arr1 v \<Rightarrow> atleast_2d v | Arr2 m \<Rightarrow> Arr2 m)) (\<lambda>X.
     on_ok (check (shape X ! 1 = shape X_train ! 1 \<and> shape X_train ! 1 = num_dim self)) (\<lambda>_.
     on_ok (check (shape cov_X_X ! 0 = shape cov_X_X ! 1 \<and> shape cov_X_X ! 1 = shape X_train ! 0)) (\<lambda>_.
     on_ok (check (shape inv_cov_X_X ! 0 = shape inv_cov_X_X ! 1
                 \<and> shape inv_cov_X_X ! 1 = shape X_train ! 0)) (\<lambda>_.
     on_ok (choose_fun_acquisition E (str_acq self) (hyps ''noise'')) (\<lambda>fun_acquisition.
     on_ok (compute_posteriors E self X_train Y_train X cov_X_X inv_cov_X_X hyps) (\<lambda>(pred_mean, pred_std).
     on_ok (fun_acquisition pred_mean pred_std Y_train) (\<lambda>acquisitions.
     Inr (np_scale (MULTIPLIER_ACQ E) acquisitions))))))))))))))"

text \<open>\<open>A *= c\<close> on a one-dimensional \<open>float64\<close> array: every entry is multiplied by
  \<open>c\<close> and rounded.\<close>

definition np_multiply64 :: "vec \<Rightarrow> real \<Rightarrow> float64 list" where
  "np_multiply64 a c = map (\<lambda>y. mul64 (Finite y) (Finite c)) a"

text \<open>\<open>compute_acquisitions\<close> with its last statement,
  \<open>acquisitions *= constants.MULTIPLIER_ACQ\<close> (line 163), in binary64. The scores of
  the acquisition rule and the constant are finite binary64 values; the scaled
  scores need not be finite.\<close>

definition compute_acquisitions64 ::
  "env \<Rightarrow> mobo \<Rightarrow> ndarray \<Rightarrow> ndarray \<Rightarrow> ndarray \<Rightarrow> ndarray \<Rightarrow> ndarray \<Rightarrow> hyps
     \<Rightarrow> error + float64 list" where
  "compute_acquisitions64 E self X X_train Y_train cov_X_X inv_cov_X_X hyps =
     on_ok (check (length (shape X_train) = 2)) (\<lambda>_.
     on_ok (check (length (shape Y_train) = 2)) (\<lambda>_.
     on_ok (check (length (shape cov_X_X) = 2)) (\<lambda>_.
     on_ok (check (length (shape inv_cov_X_X) = 2)) (\<lambda>_.
     on_ok (check (shape Y_train ! 1 = 1)) (\<lambda>_.
     on_ok (check (shape X_train ! 0 = shape Y_train ! 0)) (\<lambda>_.
     on_ok (Inr (case X of Arr1 v \<Rightarrow> atleast_2d v | Arr2 m \<Rightarrow> Arr2 m)) (\<lambda>X.
     on_ok (check (shape X ! 1 = shape X_train ! 1 \<and> shape X_train ! 1 = num_dim self)) (\<lambda>_.
     on_ok (check (shape cov_X_X ! 0 = shape cov_X_X ! 1 \<and> shape cov_X_X ! 1 = shape X_train ! 0)) (\<lambda>_.
     on_ok (check (shape inv_cov_X_X ! 0 = shape inv_cov_X_X ! 1
                 \<and> shape inv_cov_X_X ! 1 = shape X_train ! 0)) (\<lambda>_.
     on_ok (choose_fun_acquisition E (str_acq self) (hyps ''noise'')) (\<lambda>fun_acquisition.
     on_ok (compute_posteriors E self X_train Y_train X cov_X_X inv_cov_X_X hyps) (\<lambda>(pred_mean, pred_std).
     on_ok (fun_acquisition pred_mean pred_std Y_train) (\<lambda>acquisitions.
     Inr (np_multiply64 acquisitions (MULTIPLIER_ACQ E)))))))))))))))"

subsection \<open>\<open>MOBO.optimize\<close>\<close>

text \<open>The two closures \<open>fun_negative_acquisition_1\<close> and \<open>fun_negative_acquisition_2\<close>
  (one body, instantiated per objective) and the combined closure
  \<open>fun_negative_acquisition\<close>.\<close>

definition fun_negative_acquisition_k ::
  "env \<Rightarrow> mobo \<Rightarrow> ndarray \<Rightarrow> ndarray \<Rightarrow> ndarray \<Rightarrow> ndarray \<Rightarrow> hyps \<Rightarrow> objective" where
  "fun_negative_acquisition_k E self X_train Y_train_k cov_X_X_k inv_cov_X_X_k hyps_k X_test =
     on_ok (compute_acquisitions E self X_test X_train Y_train_k cov_X_X_k inv_cov_X_X_k hyps_k)
       (\<lambda>a. Inr (np_scale (- 1) a))"

definition fun_negative_acquisition :: "objective \<Rightarrow> objective \<Rightarrow> real \<Rightarrow> objective" where
  "fun_negative_acquisition fun_negative_acquisition_1 fun_negative_acquisition_2 log_weight X_test =
     on_ok (fun_negative_acquisition_1 X_test) (\<lambda>a1.
     on_ok (fun_negative_acquisition_2 X_test) (\<lambda>a2.
     np_add a1 (np_scale (10 powr log_weight) a2)))"

text \<open>The report \<open>dict_info\<close>. The four response entries are references into the
  store, as the Python dictionary holds the array objects themselves.\<close>

record dict_info =
  next_points :: matrix
  acquisitions :: vec
  Y_original_1 :: addr
  Y_original_2 :: addr
  Y_normalized_1 :: addr
  Y_normalized_2 :: addr
  cov_X_X_1 :: ndarray
  inv_cov_X_X_1 :: ndarray
  hyps_1 :: hyps
  cov_X_X_2 :: ndarray
  inv_cov_X_X_2 :: ndarray
  hyps_2 :: hyps
  time_surrogate :: real
  time_acq :: real
  time_overall :: real

text \<open>\<open>utils_bo.normalize_min_max(Y_train_k)\<close> on a reference: the normalised copy is
  a new array object.\<close>

definition normalized :: "addr \<Rightarrow> addr cmd" where
  "normalized p = and_then (deref p) (\<lambda>Y. alloc (normalize_min_max Y))"

text \<open>One call of \<open>gp_kernel.get_optimized_kernel\<close>.\<close>

definition fit :: "env \<Rightarrow> world \<Rightarrow> mobo \<Rightarrow> ndarray \<Rightarrow> ndarray \<Rightarrow> (ndarray \<times> ndarray \<times> hyps) cmd" where
  "fit E w self X_train Y_train_k =
     and_then (emit (Fit X_train Y_train_k)) (\<lambda>_.
     lift (get_optimized_kernel E (entropy w) X_train Y_train_k (prior_mu self) (str_cov self)
             (str_optimizer_method_gp self) (str_modelselection_method self) (use_ard self) (debug self)))"

text \<open>\<open>np.random.RandomState(seed + 101).uniform(low=-3, high=3)\<close>; \<open>None + 101\<close> is a
  \<open>TypeError\<close>.\<close>

definition draw_log_weight :: "env \<Rightarrow> int option \<Rightarrow> real cmd" where
  "draw_log_weight E seed =
     (case seed of
        None \<Rightarrow> lift (Inl TypeError)
      | Some n \<Rightarrow>
          and_then (emit (Uniform (n + 101) (- 3) 3)) (\<lambda>_.
          lift (random_state_uniform E (n + 101) (- 3) 3)))"

definition optimize ::
  "env \<Rightarrow> world \<Rightarrow> mobo \<Rightarrow> addr \<Rightarrow> addr \<Rightarrow> string \<Rightarrow> int \<Rightarrow> int option \<Rightarrow> (vec \<times> dict_info) cmd" where
  "optimize E w self X_train_ref Y_train_ref str_sampling_method num_samples seed =
     and_then (deref X_train_ref) (\<lambda>X_train.
     and_then (deref Y_train_ref) (\<lambda>Y_train.
     and_then (py_assert (length (shape X_train) = 2)) (\<lambda>_.
     and_then (py_assert (length (shape Y_train) = 2)) (\<lambda>_.
     and_then (py_assert (shape Y_train ! 1 = 2)) (\<lambda>_.
     and_then (py_assert (shape X_train ! 0 = shape Y_train ! 0)) (\<lambda>_.
     and_then (py_assert (shape X_train ! 1 = num_dim self)) (\<lambda>_.
     and_then (py_assert (num_samples > 0)) (\<lambda>_.
     and_then (py_assert (str_sampling_method \<in> set (ALLOWED_SAMPLING_METHOD E))) (\<lambda>_.
     and_then (time_time w) (\<lambda>time_start.
     and_then (and_then (lift (column 0 Y_train)) alloc) (\<lambda>Y_train_1.
     and_then (and_then (lift (column 1 Y_train)) alloc) (\<lambda>Y_train_2.
     and_then (ret Y_train_1) (\<lambda>Y_train_orig_1.
     and_then (ret Y_train_2) (\<lambda>Y_train_orig_2.
     and_then (if normalize_Y self
               then and_then (normalized Y_train_1) (\<lambda>Y_train_1.
                    and_then (normalized Y_train_2) (\<lambda>Y_train_2.
                    ret (Y_train_1, Y_train_2)))
               else ret (Y_train_1, Y_train_2)) (\<lambda>(Y_train_1, Y_train_2).
     and_then (time_time w) (\<lambda>time_start_surrogate.
     and_then (deref Y_train_1) (\<lambda>Y1.
     and_then (fit E w self X_train Y1) (\<lambda>(cov_X_X_1, inv_cov_X_X_1, hyps_1).
     and_then (deref Y_train_2) (\<lambda>Y2.
     and_then (fit E w self X_train Y2) (\<lambda>(cov_X_X_2, inv_cov_X_X_2, hyps_2).
     and_then (time_time w) (\<lambda>time_end_surrogate.
     and_then (time_time w) (\<lambda>time_start_acq.
     and_then (ret (fun_negative_acquisition_k E self X_train Y1 cov_X_X_1 inv_cov_X_X_1 hyps_1)) (\<lambda>fun_negative_acquisition_1.
     and_then (ret (fun_negative_acquisition_k E self X_train Y2 cov_X_X_2 inv_cov_X_X_2 hyps_2)) (\<lambda>fun_negative_acquisition_2.
     and_then (draw_log_weight E seed) (\<lambda>log_weight.
     and_then (ret (fun_negative_acquisition fun_negative_acquisition_1 fun_negative_acquisition_2 log_weight)) (\<lambda>fun_negative_acquisition.
     and_then (priv_optimize E w self fun_negative_acquisition str_sampling_method num_samples seed) (\<lambda>(next_point, next_points).
     and_then (and_then (lift (check_points_in_bounds (newaxis next_point) (get_bounds self)))
                 (\<lambda>m. lift (first_row m))) (\<lambda>next_point.
     and_then (lift (check_points_in_bounds next_points (get_bounds self))) (\<lambda>next_points.
     and_then (time_time w) (\<lambda>time_end_acq.
     and_then (lift (fun_negative_acquisition (Arr2 next_points))) (\<lambda>acquisitions.
     and_then (time_time w) (\<lambda>time_end.
     ret (next_point,
          \<lparr>next_points = next_points,
           acquisitions = acquisitions,
           Y_original_1 = Y_train_orig_1,
           Y_original_2 = Y_train_orig_2,
           Y_normalized_1 = Y_train_1,
           Y_normalized_2 = Y_train_2,
           cov_X_X_1 = cov_X_X_1,
           inv_cov_X_X_1 = inv_cov_X_X_1,
           hyps_1 = hyps_1,
           cov_X_X_2 = cov_X_X_2,
           inv_cov_X_X_2 = inv_cov_X_X_2,
           hyps_2 = hyps_2,
           time_surrogate = time_end_surrogate - time_start_surrogate,
           time_acq = time_end_acq - time_start_acq,
           time_overall = time_end - time_start\<rparr>)))))))))))))))))))))))))))))))))"

subsection \<open>Notions used to state the properties\<close>

text \<open>The two per-objective closures of a finished round, rebuilt from its report:
  the report holds the very arrays and surrogate states the closures captured.\<close>

definition closure_1 :: "env \<Rightarrow> mobo \<Rightarrow> ndarray \<Rightarrow> (addr \<Rightarrow> ndarray) \<Rightarrow> dict_info \<Rightarrow> objective" where
  "closure_1 E self X_train H info =
     fun_negative_acquisition_k E self X_train (H (Y_normalized_1 info))
       (cov_X_X_1 info) (inv_cov_X_X_1 info) (hyps_1 info)"

definition closure_2 :: "env \<Rightarrow> mobo \<Rightarrow> ndarray \<Rightarrow> (addr \<Rightarrow> ndarray) \<Rightarrow> dict_info \<Rightarrow> objective" where
  "closure_2 E self X_train H info =
     fun_negative_acquisition_k E self X_train (H (Y_normalized_2 info))
       (cov_X_X_2 info) (inv_cov_X_X_2 info) (hyps_2 info)"

text \<open>The answer of the surrogate fitter to the call \<open>fit\<close> makes.\<close>

definition fitted :: "env \<Rightarrow> world \<Rightarrow> mobo \<Rightarrow> ndarray \<Rightarrow> ndarray \<Rightarrow> error + (ndarray \<times> ndarray \<times> hyps)" where
  "fitted E w self X Yk =
     get_optimized_kernel E (entropy w) X Yk (prior_mu self) (str_cov self)
       (str_optimizer_method_gp self) (str_modelselection_method self) (use_ard self) (debug self)"

text \<open>The scalarization draws among the events of a trace.\<close>

fun is_draw :: "event \<Rightarrow> bool" where
  "is_draw (Uniform _ _ _) = True"
| "is_draw _ = False"

text \<open>The calls of a trace that take a seed: the scalarization draw and the restart
  sampling.\<close>

fun is_seeded :: "event \<Rightarrow> bool" where
  "is_seeded (Uniform _ _ _) = True"
| "is_seeded (Sample _ _ _) = True"
| "is_seeded _ = False"

text \<open>A report without its three timings, and two outcomes of a round that agree up
  to the timings of their reports.\<close>

definition untimed :: "dict_info \<Rightarrow> dict_info" where
  "untimed info = info\<lparr>time_surrogate := 0, time_acq := 0, time_overall := 0\<rparr>"

definition same_outcome ::
  "(error + vec \<times> dict_info) \<times> state \<Rightarrow> (error + vec \<times> dict_info) \<times> state \<Rightarrow> bool" where
  "same_outcome a b \<longleftrightarrow>
     (case (fst a, fst b) of
        (Inl e1, Inl e2) \<Rightarrow> e1 = e2
      | (Inr (p1, info1), Inr (p2, info2)) \<Rightarrow> p1 = p2 \<and> untimed info1 = untimed info2
      | _ \<Rightarrow> False)
     \<and> snd a = snd b"

text \<open>The sampling provider, the local optimizer and the surrogate fitter are
  deterministic functions of their arguments: none depends on the hidden state.\<close>

definition deterministic :: "env \<Rightarrow> bool" where
  "deterministic E \<longleftrightarrow>
     (\<forall>h h'. get_samples E h = get_samples E h')
   \<and> (\<forall>h h'. minimize E h = minimize E h')
   \<and> (\<forall>h h'. get_optimized_kernel E h = get_optimized_kernel E h')"

text \<open>A command leaves every array that was allocated before it as it was.\<close>

definition frame :: "state \<Rightarrow> state \<Rightarrow> bool" where
  "frame s t \<longleftrightarrow> next_free s \<le> next_free t \<and> (\<forall>a<next_free s. heap t a = heap s a)"

definition preserves :: "'a cmd \<Rightarrow> bool" where
  "preserves m \<longleftrightarrow> (\<forall>s. frame s (snd (m s)))"

subsection \<open>A concrete round\<close>

text \<open>A small environment on which the model can be run: three restart points 2, 8
  and 5, each shifted by the seed, a local optimizer that moves its start by 4 (out of
  the domain for the larger ones) and reports an objective value unrelated to the
  objective, a surrogate whose
  posterior mean at a point is the sum of its coordinates plus the sum of the training
  responses, the posterior mean as acquisition rule, and a generator whose draw is the
  parity of its seed.\<close>

definition demo_hyps :: hyps where
  "demo_hyps = (\<lambda>k. if k = ''noise'' then Some (Scalar 0) else None)"

definition demo_rows :: "ndarray \<Rightarrow> vec list" where
  "demo_rows X = (case X of Arr1 v \<Rightarrow> [v] | Arr2 m \<Rightarrow> rows m)"

definition demo_cov :: "ndarray \<Rightarrow> ndarray" where
  "demo_cov Y = Arr2 \<lparr>shape1 = length (entries Y), rows = map (\<lambda>_. map (\<lambda>_. 0) (entries Y)) (entries Y)\<rparr>"

definition demo_env :: env where
  "demo_env = \<lparr>
     MULTIPLIER_ACQ = 10,
     ALLOWED_SAMPLING_METHOD = [''uniform'', ''sobol''],
     get_samples = (\<lambda>h self m n seed.
        Inr (map (\<lambda>x. [x + (case seed of None \<Rightarrow> 0 | Some k \<Rightarrow> real_of_int k)])
               (take (nat n) [2, 8, 5]))),
     minimize = (\<lambda>h f x0 bs method. Inr \<lparr>res_x = map (\<lambda>x. x + 4) x0, res_fun = - sum_list x0\<rparr>),
     get_optimized_kernel = (\<lambda>h X Y pm sc so sm ard dbg. Inr (demo_cov Y, demo_cov Y, demo_hyps)),
     predict_with_cov = (\<lambda>Xt Yt X cv iv h sc pm dbg.
        Inr (Arr2 \<lparr>shape1 = 1, rows = map (\<lambda>r. [sum_list r + sum_list (entries Yt)]) (demo_rows X)\<rparr>,
             Arr2 \<lparr>shape1 = 1, rows = map (\<lambda>r. [1]) (demo_rows X)\<rparr>,
             X)),
     choose_fun_acquisition = (\<lambda>s noise. Inr (\<lambda>pred_mean pred_std Y. Inr pred_mean)),
     random_state_uniform = (\<lambda>seed lo hi. Inr (of_int (seed mod 2)))\<rparr>"

definition demo_self :: mobo where
  "demo_self = \<lparr>range_X = [(0, 10)], str_cov = ''matern52'', str_acq = ''ei'', normalize_Y = True,
     use_ard = True, prior_mu = None, str_optimizer_method_gp = ''BFGS'',
     str_optimizer_method_bo = ''L-BFGS-B'', str_modelselection_method = ''ml'', debug = False\<rparr>"

definition demo_X :: ndarray where
  "demo_X = Arr2 \<lparr>shape1 = 1, rows = [[1], [3]]\<rparr>"

definition demo_Y :: ndarray where
  "demo_Y = Arr2 \<lparr>shape1 = 2, rows = [[5, 7], [9, 7]]\<rparr>"

definition demo_state :: state where
  "demo_state = \<lparr>heap = (\<lambda>_. Arr1 [])(0 := demo_X, 1 := demo_Y),
                  next_free = 2, trace = [], ticks = 0\<rparr>"

definition demo_world :: world where
  "demo_world = \<lparr>clock = (\<lambda>k. real k), entropy = 0\<rparr>"

text \<open>The report and the final state of the round
  \<open>optimize(X_train, Y_train, 'uniform', 2, seed=0)\<close> in that environment.\<close>

definition demo_info :: dict_info where
  "demo_info = \<lparr>
     next_points = \<lparr>shape1 = 1, rows = [[6], [10]]\<rparr>,
     acquisitions = [- 670, - 1110],
     Y_original_1 = 2, Y_original_2 = 3, Y_normalized_1 = 4, Y_normalized_2 = 5,
     cov_X_X_1 = Arr2 \<lparr>shape1 = 2, rows = [[0, 0], [0, 0]]\<rparr>,
     inv_cov_X_X_1 = Arr2 \<lparr>shape1 = 2, rows = [[0, 0], [0, 0]]\<rparr>,
     hyps_1 = demo_hyps,
     cov_X_X_2 = Arr2 \<lparr>shape1 = 2, rows = [[0, 0], [0, 0]]\<rparr>,
     inv_cov_X_X_2 = Arr2 \<lparr>shape1 = 2, rows = [[0, 0], [0, 0]]\<rparr>,
     hyps_2 = demo_hyps,
     time_surrogate = 1, time_acq = 1, time_overall = 5\<rparr>"

definition demo_final :: state where
  "demo_final = \<lparr>
     heap = (\<lambda>_. Arr1 [])
       (0 := demo_X, 1 := demo_Y,
        2 := Arr2 \<lparr>shape1 = 1, rows = [[5], [9]]\<rparr>,
        3 := Arr2 \<lparr>shape1 = 1, rows = [[7], [7]]\<rparr>,
        4 := Arr2 \<lparr>shape1 = 1, rows = [[0], [1]]\<rparr>,
        5 := Arr2 \<lparr>shape1 = 1, rows = [[0], [0]]\<rparr>),
     next_free = 6,
     trace = [Fit demo_X (Arr2 \<lparr>shape1 = 1, rows = [[0], [1]]\<rparr>),
              Fit demo_X (Arr2 \<lparr>shape1 = 1, rows = [[0], [0]]\<rparr>),
              Uniform 101 (- 3) 3, Sample ''uniform'' 2 (Some 0), Minimize [2], Minimize [8]],
     ticks = 6\<rparr>"

text \<open>An objective with a tie between the first two candidates of a three-restart
  run, a response matrix with a third column, and the state that holds it.\<close>

definition demo_objective :: objective where
  "demo_objective X = Inr (map (\<lambda>r. if sum_list r = 9 then 5 else 1) (demo_rows X))"

definition demo_Y3 :: ndarray where
  "demo_Y3 = Arr2 \<lparr>shape1 = 3, rows = [[5, 7, 1], [9, 7, 2]]\<rparr>"

definition demo_state3 :: state where
  "demo_state3 = \<lparr>heap = (\<lambda>_. Arr1 [])(0 := demo_X, 1 := demo_Y3),
                   next_free = 2, trace = [], ticks = 0\<rparr>"

text \<open>The same round under another clock and hidden state, and with seed 1.\<close>

definition demo_world2 :: world where
  "demo_world2 = \<lparr>clock = (\<lambda>k. 2 * real k + 1), entropy = 7\<rparr>"

definition demo_info1 :: dict_info where
  "demo_info1 = demo_info\<lparr>next_points := \<lparr>shape1 = 1, rows = [[7], [10]]\<rparr>,
                          acquisitions := [- 150, - 210]\<rparr>"

definition demo_final1 :: state where
  "demo_final1 = demo_final\<lparr>trace :=
     [Fit demo_X (Arr2 \<lparr>shape1 = 1, rows = [[0], [1]]\<rparr>),
      Fit demo_X (Arr2 \<lparr>shape1 = 1, rows = [[0], [0]]\<rparr>),
      Uniform 102 (- 3) 3, Sample ''uniform'' 2 (Some 1), Minimize [3], Minimize [9]]\<rparr>"

text \<open>The environment with an acquisition rule whose scores for two candidates are the
  neighbouring binary64 values \<open>2 ^ 53 - 9\<close> and \<open>2 ^ 53 - 8\<close>.\<close>

definition demo_env64 :: env where
  "demo_env64 = demo_env\<lparr>choose_fun_acquisition :=
     (\<lambda>s noise. Inr (\<lambda>pred_mean pred_std Y. Inr [9007199254740983, 9007199254740984]))\<rparr>"

section \<open>Reasoning about runs\<close>

subsection \<open>Fallible pure code\<close>

lemma on_ok_Inr [simp]: "on_ok r f = Inr y \<longleftrightarrow> (\<exists>x. r = Inr x \<and> f x = Inr y)"
  by (cases r) (auto simp: on_ok_def)

lemma check_Inr [simp]: "check b = Inr u \<longleftrightarrow> b"
  by (simp add: check_def)

subsection \<open>Rounding to binary64\<close>

lemma round_half_even_mono: "x \<le> y \<Longrightarrow> round_half_even x \<le> round_half_even y"
proof -
  assume xy: "x \<le> y"
  have fl: "\<lfloor>x\<rfloor> \<le> \<lfloor>y\<rfloor>" using xy by (rule floor_mono)
  show ?thesis
  proof (cases "\<lfloor>x\<rfloor> = \<lfloor>y\<rfloor>")
    case True
    then show ?thesis using xy by (auto simp: round_half_even_def Let_def)
  next
    case False
    then have "\<lfloor>x\<rfloor> + 1 \<le> \<lfloor>y\<rfloor>" using fl by simp
    moreover have "round_half_even x \<le> \<lfloor>x\<rfloor> + 1" by (auto simp: round_half_even_def Let_def)
    moreover have "\<lfloor>y\<rfloor> \<le> round_half_even y" by (auto simp: round_half_even_def Let_def)
    ultimately show ?thesis by linarith
  qed
qed

lemma round_half_even_of_int [simp]: "round_half_even (of_int n) = n"
  by (simp add: round_half_even_def)

lemma round_half_even_minus: "round_half_even (- x) = - round_half_even x"
proof (cases "x = of_int \<lfloor>x\<rfloor>")
  case True
  then obtain n where "x = of_int n" by metis
  then show ?thesis by (simp add: round_half_even_def flip: of_int_minus)
next
  case False
  have b: "of_int \<lfloor>x\<rfloor> \<le> x" "x < of_int \<lfloor>x\<rfloor> + 1" by linarith+
  with False have lt: "of_int \<lfloor>x\<rfloor> < x" by (metis order_less_le)
  have f: "\<lfloor>- x\<rfloor> = - \<lfloor>x\<rfloor> - 1"
  proof (intro floor_unique)
    show "of_int (- \<lfloor>x\<rfloor> - 1) \<le> - x" "- x < of_int (- \<lfloor>x\<rfloor> - 1) + 1"
      unfolding of_int_diff of_int_minus of_int_1 using lt b by linarith+
  qed
  from b show ?thesis unfolding round_half_even_def Let_def f using False by auto
qed

lemma pow2_of_int: "0 \<le> k \<Longrightarrow> (2::real) powr of_int k = of_int (2 ^ nat k)"
  by (simp add: powr_realpow [symmetric])

lemma ulp_exponent_minus [simp]: "ulp_exponent (- x) = ulp_exponent x"
  by (simp add: ulp_exponent_def)

lemma round64_0 [simp]: "round64 0 = 0"
  by (simp add: round64_def)

lemma round64_minus: "round64 (- x) = - round64 x"
  by (simp add: round64_def round_half_even_minus)

lemma round64_nonneg: "0 \<le> x \<Longrightarrow> 0 \<le> round64 x"
proof -
  assume x: "0 \<le> x"
  have "0 \<le> x / 2 powr of_int (ulp_exponent x)" using x by simp
  then have "round_half_even 0 \<le> round_half_even (x / 2 powr of_int (ulp_exponent x))"
    by (rule round_half_even_mono)
  moreover have "round_half_even 0 = 0" using round_half_even_of_int [of 0] by simp
  ultimately show ?thesis by (simp add: round64_def)
qed

lemma ulp_exponent_mono: "0 < x \<Longrightarrow> x \<le> y \<Longrightarrow> ulp_exponent x \<le> ulp_exponent y"
proof -
  assume x: "0 < x" and xy: "x \<le> y"
  then have "log 2 x \<le> log 2 y" by simp
  then have "\<lfloor>log 2 x\<rfloor> \<le> \<lfloor>log 2 y\<rfloor>" by (rule floor_mono)
  then show ?thesis using x xy by (simp add: ulp_exponent_def)
qed

text \<open>Rounding is monotone. Within one binade the unit in the last place is the same
  for both arguments; across binades a power of two, which rounding leaves as it is,
  lies between them.\<close>

lemma round64_mono_pos:
  assumes x: "0 < x" and xy: "x \<le> y"
  shows "round64 x \<le> round64 y"
proof -
  define ex where "ex = ulp_exponent x"
  define ey where "ey = ulp_exponent y"
  have y: "0 < y" using x xy by simp
  have rx: "round64 x = of_int (round_half_even (x / 2 powr of_int ex)) * 2 powr of_int ex"
    using x by (simp add: round64_def ex_def)
  have ry: "round64 y = of_int (round_half_even (y / 2 powr of_int ey)) * 2 powr of_int ey"
    using y by (simp add: round64_def ey_def)
  have le: "ex \<le> ey" unfolding ex_def ey_def using x xy by (rule ulp_exponent_mono)
  show ?thesis
  proof (cases "ex = ey")
    case True
    have "x / 2 powr of_int ey \<le> y / 2 powr of_int ey" using xy by (simp add: divide_right_mono)
    then have "round_half_even (x / 2 powr of_int ey) \<le> round_half_even (y / 2 powr of_int ey)"
      by (rule round_half_even_mono)
    then show ?thesis unfolding rx ry True by (simp add: mult_right_mono)
  next
    case False
    with le have lt: "ex < ey" by simp
    define ky where "ky = \<lfloor>log 2 y\<rfloor>"
    have ex_lo: "- 1074 \<le> ex" "\<lfloor>log 2 x\<rfloor> - 52 \<le> ex"
      using x by (simp_all add: ex_def ulp_exponent_def)
    have ey_eq: "ey = ky - 52"
      using lt ex_lo y by (simp add: ey_def ulp_exponent_def ky_def max_def split: if_splits)
    have kx: "\<lfloor>log 2 x\<rfloor> + 1 \<le> ky" using ex_lo lt ey_eq by simp
    define B :: real where "B = 2 powr of_int ky"
    have yB: "B \<le> y"
    proof -
      have "of_int ky \<le> log 2 y" by (simp add: ky_def)
      then show ?thesis unfolding B_def using y by (simp add: le_log_iff)
    qed
    have xB: "x \<le> B"
    proof -
      have "log 2 x < of_int (\<lfloor>log 2 x\<rfloor> + 1)" by linarith
      also have "\<dots> \<le> of_int ky" using kx by (simp only: of_int_le_iff)
      finally have "x < 2 powr of_int ky" using x by (simp add: log_less_iff)
      then show ?thesis by (simp add: B_def)
    qed
    have Bx: "B / 2 powr of_int ex = of_int (2 ^ nat (ky - ex))"
    proof -
      have "B / 2 powr of_int ex = 2 powr of_int (ky - ex)" by (simp add: B_def powr_diff)
      also have "\<dots> = of_int (2 ^ nat (ky - ex))" using lt ey_eq by (intro pow2_of_int) simp
      finally show ?thesis .
    qed
    have By: "B / 2 powr of_int ey = of_int (2 ^ nat 52)"
    proof -
      have "B / 2 powr of_int ey = 2 powr of_int 52" by (simp add: B_def ey_eq powr_diff)
      also have "\<dots> = of_int (2 ^ nat 52)" by (intro pow2_of_int) simp
      finally show ?thesis .
    qed
    have "x / 2 powr of_int ex \<le> B / 2 powr of_int ex" using xB by (simp add: divide_right_mono)
    then have "round_half_even (x / 2 powr of_int ex) \<le> round_half_even (B / 2 powr of_int ex)"
      by (rule round_half_even_mono)
    then have "round_half_even (x / 2 powr of_int ex) \<le> 2 ^ nat (ky - ex)"
      unfolding Bx round_half_even_of_int .
    then have "real_of_int (round_half_even (x / 2 powr of_int ex)) \<le> B / 2 powr of_int ex"
      unfolding Bx by (simp only: of_int_le_iff)
    then have 1: "round64 x \<le> B" unfolding rx by (simp add: pos_le_divide_eq)
    have "B / 2 powr of_int ey \<le> y / 2 powr of_int ey" using yB by (simp add: divide_right_mono)
    then have "round_half_even (B / 2 powr of_int ey) \<le> round_half_even (y / 2 powr of_int ey)"
      by (rule round_half_even_mono)
    then have "2 ^ nat 52 \<le> round_half_even (y / 2 powr of_int ey)"
      unfolding By round_half_even_of_int .
    then have "B / 2 powr of_int ey \<le> real_of_int (round_half_even (y / 2 powr of_int ey))"
      unfolding By by (simp only: of_int_le_iff)
    then have 2: "B \<le> round64 y" unfolding ry by (simp add: pos_divide_le_eq)
    from 1 2 show ?thesis by simp
  qed
qed

lemma round64_mono: "x \<le> y \<Longrightarrow> round64 x \<le> round64 y"
proof -
  assume xy: "x \<le> y"
  consider "0 < x" | "x \<le> 0" "0 \<le> y" | "y < 0" by linarith
  then show ?thesis
  proof cases
    case 1
    then show ?thesis using xy by (rule round64_mono_pos)
  next
    case 2
    have "0 \<le> round64 (- x)" using 2 by (intro round64_nonneg) simp
    then have "round64 x \<le> 0" by (simp add: round64_minus)
    moreover have "0 \<le> round64 y" using 2 by (intro round64_nonneg)
    ultimately show ?thesis by simp
  next
    case 3
    have "round64 (- y) \<le> round64 (- x)" using 3 xy by (intro round64_mono_pos) simp_all
    then show ?thesis by (simp add: round64_minus)
  qed
qed

lemma fl64_not_NaN [simp]: "fl64 x \<noteq> NaN"
  by (simp add: fl64_def Let_def)

lemma fl64_mono: "x \<le> y \<Longrightarrow> le64 (fl64 x) (fl64 y)"
proof -
  assume "x \<le> y"
  then have "round64 x \<le> round64 y" by (rule round64_mono)
  then show ?thesis by (auto simp: fl64_def Let_def)
qed

lemma le64_not_lt64: "le64 a b \<Longrightarrow> \<not> lt64 b a"
  by (cases a; cases b) auto

lemma lt64_fl64D: "lt64 (fl64 x) (fl64 y) \<Longrightarrow> x < y"
  using fl64_mono [of y x] le64_not_lt64 [of "fl64 y" "fl64 x"] by (cases "x < y") auto

text \<open>The rounding of a value of magnitude \<open>2 ^ 52\<close> or more, by its binade.\<close>

lemma round64_eval:
  assumes lo: "2 ^ n \<le> \<bar>x\<bar>" and hi: "\<bar>x\<bar> < 2 ^ Suc n" and n: "52 \<le> n"
  shows "round64 x = of_int (round_half_even (x / 2 ^ (n - 52))) * 2 ^ (n - 52)"
proof -
  have x0: "0 < \<bar>x\<bar>" using lo zero_less_power [of "2::real" n] by linarith
  have "\<lfloor>log 2 \<bar>x\<bar>\<rfloor> = int n"
  proof (rule floor_unique)
    have "(2::real) powr of_int (int n) \<le> \<bar>x\<bar>" using lo by (simp add: powr_realpow)
    then show "of_int (int n) \<le> log 2 \<bar>x\<bar>" using x0 by (simp add: le_log_iff)
    have "\<bar>x\<bar> < (2::real) powr (of_int (int n) + 1)"
      using hi by (simp add: powr_add powr_realpow)
    then show "log 2 \<bar>x\<bar> < of_int (int n) + 1" using x0 by (simp add: log_less_iff)
  qed
  then have "ulp_exponent x = int (n - 52)" using n by (simp add: ulp_exponent_def)
  moreover have "(2::real) powr of_int (int (n - 52)) = 2 ^ (n - 52)" by (simp add: powr_realpow)
  ultimately show ?thesis using x0 by (simp add: round64_def)
qed

text \<open>Rounding leaves an integer of magnitude up to \<open>2 ^ 53\<close> as it is.\<close>

lemma round64_int:
  assumes int: "x \<in> \<int>" and b: "\<bar>x\<bar> \<le> 2 ^ 53"
  shows "round64 x = x"
proof (cases "x = 0")
  case True
  then show ?thesis by simp
next
  case False
  from int obtain n where n: "x = of_int n" by (auto elim: Ints_cases)
  with False have "n \<noteq> 0" by auto
  then have "1 \<le> \<bar>n\<bar>" by simp
  then have x1: "1 \<le> \<bar>x\<bar>" unfolding n by (metis of_int_1_le_iff of_int_abs)
  define k where "k = \<lfloor>log 2 \<bar>x\<bar>\<rfloor>"
  define u :: real where "u = 2 powr of_int (k - 52)"
  have u0: "0 < u" by (simp add: u_def)
  have "0 \<le> log 2 \<bar>x\<bar>" using x1 by simp
  then have k0: "0 \<le> k" by (simp add: k_def)
  have "log 2 \<bar>x\<bar> \<le> log 2 (2 ^ 53)" using x1 b by (intro log_mono) simp_all
  also have "\<dots> = 53" using log_pow_cancel [of 2 53] by simp
  finally have k53: "k \<le> 53" unfolding k_def by (simp add: floor_le_iff)
  have e: "ulp_exponent x = k - 52" using k0 by (simp add: ulp_exponent_def k_def)
  have r: "round64 x = of_int (round_half_even (x / u)) * u"
    using False by (simp add: round64_def e u_def)
  have "\<exists>m. x / u = of_int m"
  proof (cases "k \<le> 52")
    case True
    then have "(2::real) powr of_int (52 - k) = of_int (2 ^ nat (52 - k))" by (intro pow2_of_int) simp
    moreover have "x / u = x * 2 powr of_int (52 - k)"
      by (simp add: u_def powr_diff)
    ultimately have "x / u = of_int (n * 2 ^ nat (52 - k))"
      by (simp add: n)
    then show ?thesis ..
  next
    case False
    with k53 have k: "k = 53" by simp
    have "(2::real) powr 53 \<le> \<bar>x\<bar>"
    proof -
      have "of_int k \<le> log 2 \<bar>x\<bar>" by (simp add: k_def)
      then show ?thesis using x1 by (simp add: k le_log_iff)
    qed
    with b have ax: "\<bar>x\<bar> = 2 ^ 53" by simp
    have "u = 2" by (simp add: u_def k)
    moreover have "x = of_int (2 ^ 53) \<or> x = of_int (- (2 ^ 53))" using ax by (auto simp: abs_if split: if_splits)
    then have "x / 2 = of_int (2 ^ 52) \<or> x / 2 = of_int (- (2 ^ 52))" by auto
    ultimately show ?thesis by blast
  qed
  then obtain m where m: "x / u = of_int m" ..
  have "round64 x = of_int m * u" unfolding r m by (simp only: round_half_even_of_int)
  also have "\<dots> = x / u * u" by (simp only: m)
  also have "\<dots> = x" using u0 by simp
  finally show ?thesis .
qed

lemma fl64_int:
  assumes "x \<in> \<int>" and "\<bar>x\<bar> \<le> 2 ^ 53"
  shows "fl64 x = Finite x"
proof -
  have r: "round64 x = x" using assms by (rule round64_int)
  have "(2::real) ^ 53 < 2 ^ 1024" by (rule power_strict_increasing) simp_all
  with assms(2) have "\<not> 2 ^ 1024 \<le> x" "\<not> x \<le> - (2 ^ 1024)" by linarith+
  then show ?thesis unfolding fl64_def Let_def r by (simp only: if_False)
qed

subsection \<open>Successful commands, backwards\<close>

lemma and_then_InrE:
  assumes "and_then m f s = (Inr y, t)"
  obtains x s' where "m s = (Inr x, s')" and "f x s' = (Inr y, t)"
  using assms unfolding and_then_def by (auto split: prod.splits sum.splits)

lemma ret_eq [simp]: "ret x s = (r, t) \<longleftrightarrow> r = Inr x \<and> t = s"
  by (auto simp: ret_def)

lemma lift_eq [simp]: "lift r s = (r', t) \<longleftrightarrow> r = r' \<and> t = s"
  by (auto simp: lift_def)

lemma py_assert_Inr [simp]: "py_assert b s = (Inr u, t) \<longleftrightarrow> b \<and> t = s"
  by (auto simp: py_assert_def check_def lift_def)

lemma emit_eq [simp]: "emit e s = (r, t) \<longleftrightarrow> r = Inr () \<and> t = s\<lparr>trace := trace s @ [e]\<rparr>"
  by (auto simp: emit_def)

lemma time_time_eq [simp]:
  "time_time w s = (r, t) \<longleftrightarrow> r = Inr (clock w (ticks s)) \<and> t = s\<lparr>ticks := Suc (ticks s)\<rparr>"
  by (auto simp: time_time_def)

lemma deref_eq [simp]: "deref p s = (r, t) \<longleftrightarrow> r = Inr (heap s p) \<and> t = s"
  by (auto simp: deref_def)

lemma alloc_eq [simp]:
  "alloc a s = (r, t) \<longleftrightarrow>
     r = Inr (next_free s) \<and> t = s\<lparr>heap := (heap s)(next_free s := a), next_free := Suc (next_free s)\<rparr>"
  by (auto simp: alloc_def)

lemma normalized_eq [simp]:
  "normalized p s = (r, t) \<longleftrightarrow>
     r = Inr (next_free s) \<and>
     t = s\<lparr>heap := (heap s)(next_free s := normalize_min_max (heap s p)), next_free := Suc (next_free s)\<rparr>"
  by (auto simp: normalized_def and_then_def deref_def alloc_def)

lemma fit_Inr [simp]:
  "fit E w self X Yk s = (Inr k, t) \<longleftrightarrow>
     get_optimized_kernel E (entropy w) X Yk (prior_mu self) (str_cov self)
       (str_optimizer_method_gp self) (str_modelselection_method self) (use_ard self) (debug self) = Inr k
     \<and> t = s\<lparr>trace := trace s @ [Fit X Yk]\<rparr>"
  by (auto simp: fit_def and_then_def emit_def lift_def)

lemma draw_log_weight_Inr [simp]:
  "draw_log_weight E seed s = (Inr U, t) \<longleftrightarrow>
     (\<exists>n. seed = Some n \<and> random_state_uniform E (n + 101) (- 3) 3 = Inr U
          \<and> t = s\<lparr>trace := trace s @ [Uniform (n + 101) (- 3) 3]\<rparr>)"
  by (auto simp: draw_log_weight_def and_then_def emit_def lift_def split: option.splits)

lemma check_points_in_bounds_Inr [simp]:
  "check_points_in_bounds A bs = Inr z \<longleftrightarrow>
     (\<exists>cm. A = Arr2 cm \<and> z = cm\<lparr>rows := map (clamp_point bs) (rows cm)\<rparr>)"
  by (cases A) auto

lemma check_newaxis [simp]:
  "check_points_in_bounds (newaxis p) bs = Inr \<lparr>shape1 = length p, rows = [clamp_point bs p]\<rparr>"
  by (simp add: newaxis_def)

lemma first_row_single [simp]: "first_row \<lparr>shape1 = k, rows = [r]\<rparr> = Inr r"
  by (simp add: first_row_def)

subsection \<open>The restart optimizer\<close>

lemma restarts_Inr:
  "restarts E w self f bs acc inits s = (Inr xs, t) \<Longrightarrow>
     \<exists>rs. list_all2 (\<lambda>x0 r. minimize E (entropy w) f x0 bs (str_optimizer_method_bo self) = Inr r) inits rs
        \<and> xs = acc @ map res_x rs
        \<and> t = s\<lparr>trace := trace s @ map Minimize inits\<rparr>"
proof (induction inits arbitrary: acc s)
  case Nil
  then show ?case by simp
next
  case (Cons x0 inits)
  from Cons.prems obtain r where
    r: "minimize E (entropy w) f x0 bs (str_optimizer_method_bo self) = Inr r" and
    rest: "restarts E w self f bs (acc @ [res_x r]) inits (s\<lparr>trace := trace s @ [Minimize x0]\<rparr>) = (Inr xs, t)"
    by (auto elim!: and_then_InrE)
  from Cons.IH [OF rest] obtain rs where
    "list_all2 (\<lambda>x0 r. minimize E (entropy w) f x0 bs (str_optimizer_method_bo self) = Inr r) inits rs"
    "xs = (acc @ [res_x r]) @ map res_x rs"
    "t = s\<lparr>trace := trace s @ [Minimize x0]\<rparr>\<lparr>trace := trace (s\<lparr>trace := trace s @ [Minimize x0]\<rparr>) @ map Minimize inits\<rparr>"
    by blast
  with r show ?case
    by (intro exI [of _ "r # rs"]) simp
qed

lemma priv_optimize_InrD:
  assumes "priv_optimize E w self f m n seed s = (Inr (best, cands), t)"
  shows "\<exists>inits rs cm vals.
      get_samples E (entropy w) self m n seed = Inr inits
    \<and> list_all2 (\<lambda>x0 r. minimize E (entropy w) f x0 (get_bounds self) (str_optimizer_method_bo self) = Inr r) inits rs
    \<and> np_array (map res_x rs) = Inr (Arr2 cm) \<and> cands = Arr2 cm
    \<and> f (Arr2 cm) = Inr vals \<and> vals \<noteq> [] \<and> argmin vals < length (rows cm)
    \<and> best = rows cm ! argmin vals
    \<and> t = s\<lparr>trace := trace s @ Sample m n seed # map Minimize inits\<rparr>"
proof -
  from assms obtain inits xs nps bm where
    a: "get_samples E (entropy w) self m n seed = Inr inits" and
    b: "restarts E w self f (get_bounds self) [] inits (s\<lparr>trace := trace s @ [Sample m n seed]\<rparr>) = (Inr xs, t)" and
    c: "np_array xs = Inr nps" and
    d: "get_best_acquisition_by_evaluation nps f = Inr bm" and
    e: "first_row bm = Inr best" and f: "cands = nps"
    unfolding priv_optimize_def by (auto elim!: and_then_InrE)
  from restarts_Inr [OF b] obtain rs where
    rs: "list_all2 (\<lambda>x0 r. minimize E (entropy w) f x0 (get_bounds self) (str_optimizer_method_bo self) = Inr r) inits rs"
    and xs: "xs = map res_x rs" and t: "t = s\<lparr>trace := trace s @ Sample m n seed # map Minimize inits\<rparr>"
    by auto
  from d obtain cm where cm: "nps = Arr2 cm" by (cases nps) auto
  from d cm obtain vals where
    v: "f (Arr2 cm) = Inr vals" "vals \<noteq> []" "argmin vals < length (rows cm)"
       "bm = cm\<lparr>rows := [rows cm ! argmin vals]\<rparr>"
    by (auto split: if_splits)
  from e v have "best = rows cm ! argmin vals" by (simp add: first_row_def)
  with a rs c xs cm v f t show ?thesis by blast
qed

lemma priv_optimize_state:
  assumes "priv_optimize E w self f m n seed s = (Inr r, t)"
  shows "\<exists>T. t = s\<lparr>trace := T\<rparr>"
proof -
  obtain best cands where "r = (best, cands)" by (cases r)
  with assms priv_optimize_InrD [of E w self f m n seed s best cands t] show ?thesis by blast
qed

subsection \<open>A successful round\<close>

lemma optimize_Inr:
  assumes "optimize E w self Xr Yr m n seed s = (Inr (p, info), s')"
  shows "length (shape (heap s Xr)) = 2 \<and> length (shape (heap s Yr)) = 2
       \<and> shape (heap s Yr) ! 1 = 2 \<and> shape (heap s Xr) ! 0 = shape (heap s Yr) ! 0
       \<and> shape (heap s Xr) ! 1 = num_dim self \<and> 0 < n \<and> m \<in> set (ALLOWED_SAMPLING_METHOD E)
       \<and> Y_original_1 info = next_free s \<and> Y_original_2 info = Suc (next_free s)
       \<and> column 0 (heap s Yr) = Inr (heap s' (Y_original_1 info))
       \<and> column 1 (heap s Yr) = Inr (heap s' (Y_original_2 info))
       \<and> (if normalize_Y self
          then Y_normalized_1 info = next_free s + 2 \<and> Y_normalized_2 info = next_free s + 3
             \<and> heap s' (Y_normalized_1 info) = normalize_min_max (heap s' (Y_original_1 info))
             \<and> heap s' (Y_normalized_2 info) = normalize_min_max (heap s' (Y_original_2 info))
             \<and> next_free s' = next_free s + 4
          else Y_normalized_1 info = Y_original_1 info \<and> Y_normalized_2 info = Y_original_2 info
             \<and> next_free s' = next_free s + 2)
       \<and> (\<forall>a. a < next_free s \<longrightarrow> heap s' a = heap s a)
       \<and> fitted E w self (heap s Xr) (heap s' (Y_normalized_1 info))
            = Inr (cov_X_X_1 info, inv_cov_X_X_1 info, hyps_1 info)
       \<and> fitted E w self (heap s Xr) (heap s' (Y_normalized_2 info))
            = Inr (cov_X_X_2 info, inv_cov_X_X_2 info, hyps_2 info)
       \<and> ticks s' = ticks s + 6
       \<and> time_surrogate info = clock w (ticks s + 2) - clock w (ticks s + 1)
       \<and> time_acq info = clock w (ticks s + 4) - clock w (ticks s + 3)
       \<and> time_overall info = clock w (ticks s + 5) - clock w (ticks s)
       \<and> (\<exists>k U best cm.
            seed = Some k \<and> random_state_uniform E (k + 101) (- 3) 3 = Inr U
          \<and> priv_optimize E w self
               (fun_negative_acquisition (closure_1 E self (heap s Xr) (heap s') info)
                  (closure_2 E self (heap s Xr) (heap s') info) U)
               m n seed
               (s'\<lparr>ticks := ticks s + 4,
                   trace := trace s @ [Fit (heap s Xr) (heap s' (Y_normalized_1 info)),
                                       Fit (heap s Xr) (heap s' (Y_normalized_2 info)),
                                       Uniform (k + 101) (- 3) 3]\<rparr>)
             = (Inr (best, Arr2 cm), s'\<lparr>ticks := ticks s + 4\<rparr>)
          \<and> p = clamp_point (range_X self) best
          \<and> next_points info = cm\<lparr>rows := map (clamp_point (range_X self)) (rows cm)\<rparr>
          \<and> fun_negative_acquisition (closure_1 E self (heap s Xr) (heap s') info)
               (closure_2 E self (heap s Xr) (heap s') info) U (Arr2 (next_points info))
             = Inr (acquisitions info))"
  using assms unfolding optimize_def
  apply (elim and_then_InrE)
  apply (simp split: if_splits prod.splits)
  subgoal
    apply (elim and_then_InrE)
    apply (simp split: prod.splits)
    apply (elim and_then_InrE)
    apply (simp split: prod.splits)
    apply (elim and_then_InrE)
    apply (simp split: prod.splits)
    apply (elim and_then_InrE)
    apply (simp split: prod.splits)
    apply (frule priv_optimize_state)
    apply (clarsimp simp: get_bounds_def closure_1_def closure_2_def fitted_def eval_nat_numeral)
    done
  subgoal
    apply (elim and_then_InrE)
    apply (simp split: prod.splits)
    apply (elim and_then_InrE)
    apply (simp split: prod.splits)
    apply (elim and_then_InrE)
    apply (simp split: prod.splits)
    apply (elim and_then_InrE)
    apply (simp split: prod.splits)
    apply (frule priv_optimize_state)
    apply (clarsimp simp: get_bounds_def closure_1_def closure_2_def fitted_def eval_nat_numeral)
    done
  done

text \<open>The collaborator calls of a successful round, in order.\<close>

lemma optimize_Inr_trace:
  assumes "optimize E w self Xr Yr m n seed s = (Inr (p, info), s')"
  shows "\<exists>k U inits.
      seed = Some k \<and> random_state_uniform E (k + 101) (- 3) 3 = Inr U
    \<and> get_samples E (entropy w) self m n (Some k) = Inr inits
    \<and> trace s' = trace s @ [Fit (heap s Xr) (heap s' (Y_normalized_1 info)),
                            Fit (heap s Xr) (heap s' (Y_normalized_2 info)),
                            Uniform (k + 101) (- 3) 3,
                            Sample m n (Some k)] @ map Minimize inits"
proof -
  from optimize_Inr [OF assms] obtain k U best cm where
    k: "seed = Some k" and U: "random_state_uniform E (k + 101) (- 3) 3 = Inr U" and
    po: "priv_optimize E w self
           (fun_negative_acquisition (closure_1 E self (heap s Xr) (heap s') info)
              (closure_2 E self (heap s Xr) (heap s') info) U)
           m n seed
           (s'\<lparr>ticks := ticks s + 4,
               trace := trace s @ [Fit (heap s Xr) (heap s' (Y_normalized_1 info)),
                                   Fit (heap s Xr) (heap s' (Y_normalized_2 info)),
                                   Uniform (k + 101) (- 3) 3]\<rparr>)
         = (Inr (best, Arr2 cm), s'\<lparr>ticks := ticks s + 4\<rparr>)"
    by blast
  from priv_optimize_InrD [OF po] obtain inits where
    gs: "get_samples E (entropy w) self m n seed = Inr inits" and
    st: "s'\<lparr>ticks := ticks s + 4\<rparr>
       = s'\<lparr>ticks := ticks s + 4,
            trace := trace s @ [Fit (heap s Xr) (heap s' (Y_normalized_1 info)),
                                Fit (heap s Xr) (heap s' (Y_normalized_2 info)),
                                Uniform (k + 101) (- 3) 3]\<rparr>
           \<lparr>trace := trace (s'\<lparr>ticks := ticks s + 4,
                 trace := trace s @ [Fit (heap s Xr) (heap s' (Y_normalized_1 info)),
                                     Fit (heap s Xr) (heap s' (Y_normalized_2 info)),
                                     Uniform (k + 101) (- 3) 3]\<rparr>)
               @ Sample m n seed # map Minimize inits\<rparr>"
    by blast
  have "trace s' = trace (s'\<lparr>ticks := ticks s + 4\<rparr>)"
    by simp
  also have "\<dots> = trace s @ [Fit (heap s Xr) (heap s' (Y_normalized_1 info)),
                            Fit (heap s Xr) (heap s' (Y_normalized_2 info)),
                            Uniform (k + 101) (- 3) 3]
                   @ Sample m n seed # map Minimize inits"
    by (subst st) simp
  finally show ?thesis
    using k U gs by simp
qed

subsection \<open>The acquisition closures\<close>

lemma fun_negative_acquisition_Inr:
  "fun_negative_acquisition f1 f2 U X = Inr v \<longleftrightarrow>
     (\<exists>a1 a2. f1 X = Inr a1 \<and> f2 X = Inr a2 \<and> np_add a1 (np_scale (10 powr U) a2) = Inr v)"
  by (simp add: fun_negative_acquisition_def)

lemma fun_negative_acquisition_k_Inr:
  "fun_negative_acquisition_k E self Xt Yk cv iv h X = Inr a \<longleftrightarrow>
     (\<exists>a0. compute_acquisitions E self X Xt Yk cv iv h = Inr a0 \<and> a = np_scale (- 1) a0)"
  by (auto simp: fun_negative_acquisition_k_def)

lemma compute_acquisitions_shape:
  assumes "compute_acquisitions E self (Arr2 M) Xt Yk cv iv h = Inr a"
  shows "shape1 M = num_dim self"
  using assms by (auto simp: compute_acquisitions_def)

lemma np_add_same_length:
  "length a = length b \<Longrightarrow> np_add a b = Inr (map2 (\<lambda>x y. x + y) a b)"
  by (simp add: np_add_def)

subsection \<open>Candidates and bounds\<close>

lemma np_array_Arr2:
  assumes "np_array vs = Inr (Arr2 cm)"
  shows "rows cm = vs \<and> (\<forall>r\<in>set vs. length r = shape1 cm)"
  using assms by (auto simp: np_array_def list_all_iff split: list.splits if_splits)

lemma length_clamp_point [simp]: "length (clamp_point bs x) = length x"
  by (induction bs x rule: clamp_point.induct) auto

lemma clamp_point_in_bounds:
  "list_all (\<lambda>(lo, hi). lo \<le> hi) bs \<Longrightarrow> length x = length bs \<Longrightarrow>
     list_all2 (\<lambda>x (lo, hi). lo \<le> x \<and> x \<le> hi) (clamp_point bs x) bs"
  by (induction bs x rule: clamp_point.induct) (auto simp: clamp_def)

subsection \<open>Running the model forwards\<close>

lemma ret_apply: "ret x s = (Inr x, s)"
  by (simp add: ret_def)

lemma lift_apply: "lift r s = (r, s)"
  by (simp add: lift_def)

lemma and_then_ret: "and_then (ret x) f s = f x s"
  by (simp add: and_then_def ret_def)

lemma and_then_lift: "and_then (lift r) f s = (case r of Inl e \<Rightarrow> (Inl e, s) | Inr x \<Rightarrow> f x s)"
  by (simp add: and_then_def lift_def split: sum.splits)

lemma and_then_assert: "and_then (py_assert b) f s = (if b then f () s else (Inl AssertionError, s))"
  by (simp add: and_then_def py_assert_def check_def lift_def)

lemma and_then_emit: "and_then (emit e) f s = f () (s\<lparr>trace := trace s @ [e]\<rparr>)"
  by (simp add: and_then_def emit_def)

lemma and_then_time: "and_then (time_time w) f s = f (clock w (ticks s)) (s\<lparr>ticks := Suc (ticks s)\<rparr>)"
  by (simp add: and_then_def time_time_def)

lemma and_then_deref: "and_then (deref p) f s = f (heap s p) s"
  by (simp add: and_then_def deref_def)

lemma and_then_alloc:
  "and_then (alloc a) f s = f (next_free s) (s\<lparr>heap := (heap s)(next_free s := a), next_free := Suc (next_free s)\<rparr>)"
  by (simp add: and_then_def alloc_def)

lemma and_then_assoc: "and_then (and_then m f) g = and_then m (\<lambda>x. and_then (f x) g)"
  by (auto simp: and_then_def fun_eq_iff split: prod.splits sum.splits)

lemma and_then_if: "and_then (if c then m1 else m2) f = (if c then and_then m1 f else and_then m2 f)"
  by simp

lemmas run_simps = and_then_ret and_then_lift and_then_assert and_then_emit and_then_time
  and_then_deref and_then_alloc and_then_assoc and_then_if normalized_def fit_def
  draw_log_weight_def priv_optimize_def ret_apply lift_apply

lemmas model_simps = optimize_def run_simps compute_acquisitions_def compute_posteriors_def
  fun_negative_acquisition_k_def fun_negative_acquisition_def on_ok_def check_def
  normalize_min_max_def map_entries_def min_max_value_def min_max_value64_def fl64_int
  np_scale_def np_add_def np_array_def
  first_row_def newaxis_def atleast_2d_def argmin_def clamp_def get_bounds_def num_dim_def

lemmas demo_simps = demo_env_def demo_self_def demo_X_def demo_Y_def demo_state_def demo_world_def
  demo_rows_def demo_cov_def entries_def

lemma demo_run:
  "optimize demo_env demo_world demo_self 0 1 ''uniform'' 2 (Some 0) demo_state
     = (Inr ([10], demo_info), demo_final)"
  by (simp add: model_simps demo_simps demo_info_def demo_final_def)

subsection \<open>Selection of the best candidate\<close>

lemma argmin_from_correct:
  "ys = drop i xs \<Longrightarrow> i \<le> length xs \<Longrightarrow> b < i \<Longrightarrow> xs ! b = v
   \<Longrightarrow> (\<forall>j<i. v \<le> xs ! j) \<Longrightarrow> (\<forall>j<b. v < xs ! j)
   \<Longrightarrow> argmin_from b v i ys < length xs
     \<and> (\<forall>j<length xs. xs ! argmin_from b v i ys \<le> xs ! j)
     \<and> (\<forall>j<argmin_from b v i ys. xs ! argmin_from b v i ys < xs ! j)"
proof (induction ys arbitrary: b v i)
  case Nil
  then have "i = length xs" by simp
  with Nil show ?case by simp
next
  case (Cons y ys)
  from Cons.prems(1,2) have i: "i < length xs"
    by (metis drop_eq_Nil le_neq_implies_less list.distinct(1))
  with Cons.prems(1) have y: "y = xs ! i" and ys: "ys = drop (Suc i) xs"
    by (simp_all add: Cons_nth_drop_Suc [symmetric])
  show ?case
  proof (cases "y < v")
    case True
    have "argmin_from i y (Suc i) ys < length xs
     \<and> (\<forall>j<length xs. xs ! argmin_from i y (Suc i) ys \<le> xs ! j)
     \<and> (\<forall>j<argmin_from i y (Suc i) ys. xs ! argmin_from i y (Suc i) ys < xs ! j)"
    proof (rule Cons.IH [OF ys])
      show "Suc i \<le> length xs" using i by simp
      show "i < Suc i" by simp
      show "xs ! i = y" using y by simp
      show "\<forall>j<Suc i. y \<le> xs ! j"
        using True Cons.prems(5) y by (auto simp: less_Suc_eq intro: less_imp_le order.strict_trans2)
      show "\<forall>j<i. y < xs ! j"
        using True Cons.prems(5) by (auto intro: order.strict_trans2)
    qed
    with True show ?thesis by simp
  next
    case False
    have "argmin_from b v (Suc i) ys < length xs
     \<and> (\<forall>j<length xs. xs ! argmin_from b v (Suc i) ys \<le> xs ! j)
     \<and> (\<forall>j<argmin_from b v (Suc i) ys. xs ! argmin_from b v (Suc i) ys < xs ! j)"
    proof (rule Cons.IH [OF ys])
      show "Suc i \<le> length xs" using i by simp
      show "b < Suc i" using Cons.prems(3) by simp
      show "xs ! b = v" by (rule Cons.prems(4))
      show "\<forall>j<Suc i. v \<le> xs ! j"
        using False Cons.prems(5) y by (auto simp: less_Suc_eq)
      show "\<forall>j<b. v < xs ! j" by (rule Cons.prems(6))
    qed
    with False show ?thesis by simp
  qed
qed

lemma argmin_correct:
  assumes "vals \<noteq> []"
  shows "argmin vals < length vals
     \<and> (\<forall>j<length vals. vals ! argmin vals \<le> vals ! j)
     \<and> (\<forall>j<argmin vals. vals ! argmin vals < vals ! j)"
proof -
  from assms obtain y ys where v: "vals = y # ys" by (cases vals) auto
  have "argmin_from 0 y 1 ys < length (y # ys)
     \<and> (\<forall>j<length (y # ys). (y # ys) ! argmin_from 0 y 1 ys \<le> (y # ys) ! j)
     \<and> (\<forall>j<argmin_from 0 y 1 ys. (y # ys) ! argmin_from 0 y 1 ys < (y # ys) ! j)"
    by (rule argmin_from_correct) auto
  with v show ?thesis by (simp add: argmin_def)
qed

lemma restarts_reported_value:
  "restarts (E\<lparr>minimize := \<lambda>h f x0 bs meth. (case minimize E h f x0 bs meth of Inl e \<Rightarrow> Inl e | Inr r \<Rightarrow> Inr (r\<lparr>res_fun := g r\<rparr>))\<rparr>)
      w self f bs acc inits s
   = restarts E w self f bs acc inits s"
proof (induction inits arbitrary: acc s)
  case Nil
  show ?case by simp
next
  case (Cons x0 inits)
  show ?case
    by (cases "minimize E (entropy w) f x0 bs (str_optimizer_method_bo self)")
       (simp_all add: and_then_emit and_then_lift Cons.IH)
qed

lemma restarts_reported_value_fun:
  "restarts (E\<lparr>minimize := \<lambda>h f x0 bs meth. (case minimize E h f x0 bs meth of Inl e \<Rightarrow> Inl e | Inr r \<Rightarrow> Inr (r\<lparr>res_fun := g r\<rparr>))\<rparr>)
      w self f bs acc inits
   = restarts E w self f bs acc inits"
  by (rule ext) (rule restarts_reported_value)

subsection \<open>Responses, normalisation and scaling\<close>

lemma optimize_Inr_responses:
  assumes "optimize E w self Xr Yr m n seed s = (Inr (p, info), s')"
  shows "length (shape (heap s Yr)) = 2" and "shape (heap s Yr) ! 1 = 2"
    and "Y_original_1 info = next_free s" and "Y_original_2 info = Suc (next_free s)"
    and "column 0 (heap s Yr) = Inr (heap s' (Y_original_1 info))"
    and "column 1 (heap s Yr) = Inr (heap s' (Y_original_2 info))"
    and "normalize_Y self \<Longrightarrow> Y_normalized_1 info = next_free s + 2"
    and "normalize_Y self \<Longrightarrow> Y_normalized_2 info = next_free s + 3"
    and "normalize_Y self \<Longrightarrow>
           heap s' (Y_normalized_1 info) = normalize_min_max (heap s' (Y_original_1 info))"
    and "normalize_Y self \<Longrightarrow>
           heap s' (Y_normalized_2 info) = normalize_min_max (heap s' (Y_original_2 info))"
    and "\<not> normalize_Y self \<Longrightarrow> Y_normalized_1 info = Y_original_1 info"
    and "\<not> normalize_Y self \<Longrightarrow> Y_normalized_2 info = Y_original_2 info"
    and "a < next_free s \<Longrightarrow> heap s' a = heap s a"
  using optimize_Inr [OF assms] by (auto split: if_splits)

lemma compute_posteriors_multiplier [simp]:
  "compute_posteriors (E\<lparr>MULTIPLIER_ACQ := k\<rparr>) = compute_posteriors E"
  by (simp add: compute_posteriors_def fun_eq_iff)

lemma nth_np_scale: "i < length a \<Longrightarrow> np_scale c a ! i = c * a ! i"
  by (simp add: np_scale_def)

lemma length_np_scale [simp]: "length (np_scale c a) = length a"
  by (simp add: np_scale_def)




subsection \<open>Two runs of a round\<close>

lemma same_outcome_refl [simp]: "same_outcome a a"
  by (auto simp: same_outcome_def split: sum.splits prod.splits)

lemma same_outcome_bind:
  assumes "\<And>x t. same_outcome (f x t) (g x t)"
  shows "same_outcome (and_then m f s) (and_then m g s)"
proof (cases "m s")
  case (Pair r t)
  then show ?thesis
    using assms by (cases r) (simp_all add: and_then_def same_outcome_def)
qed

lemma same_outcome_time:
  assumes "\<And>x y t. same_outcome (f x t) (g y t)"
  shows "same_outcome (and_then (time_time w1) f s) (and_then (time_time w2) g s)"
  using assms by (simp add: and_then_time)

lemma same_outcome_case_prod:
  assumes "\<And>a b. same_outcome (f a b t) (g a b t)"
  shows "same_outcome ((case x of (a, b) \<Rightarrow> f a b) t) ((case x of (a, b) \<Rightarrow> g a b) t)"
  using assms by (cases x) simp

lemma same_outcome_ret:
  "untimed i = untimed j \<Longrightarrow> same_outcome (ret (p, i) t) (ret (p, j) t)"
  by (simp add: same_outcome_def ret_def)

lemma fit_deterministic:
  "deterministic E \<Longrightarrow> fit E w1 self = fit E w2 self"
proof -
  assume "deterministic E"
  then have "get_optimized_kernel E (entropy w1) = get_optimized_kernel E (entropy w2)"
    unfolding deterministic_def by blast
  then show ?thesis by (simp add: fit_def fun_eq_iff)
qed

lemma restarts_deterministic:
  assumes "deterministic E"
  shows "restarts E w1 self f bs acc inits = restarts E w2 self f bs acc inits"
proof (induction inits arbitrary: acc)
  case Nil
  show ?case by simp
next
  case (Cons x0 inits)
  from assms have "minimize E (entropy w1) = minimize E (entropy w2)"
    unfolding deterministic_def by blast
  with Cons show ?case by simp
qed

lemma priv_optimize_deterministic:
  assumes "deterministic E"
  shows "priv_optimize E w1 self = priv_optimize E w2 self"
proof -
  from assms have "get_samples E (entropy w1) = get_samples E (entropy w2)"
    unfolding deterministic_def by blast
  then show ?thesis
    by (simp add: priv_optimize_def fun_eq_iff restarts_deterministic [OF assms, of w1 _ _ _ _ _ w2])
qed

lemma optimize_same_outcome:
  assumes "deterministic E"
  shows "same_outcome (optimize E w1 self Xr Yr m n seed s) (optimize E w2 self Xr Yr m n seed s)"
  unfolding optimize_def fit_deterministic [OF assms, of w1 self w2]
    priv_optimize_deterministic [OF assms, of w1 self w2]
  apply (intro same_outcome_bind same_outcome_time same_outcome_case_prod)
  apply (rule same_outcome_ret)
  apply (simp add: untimed_def)
  done

subsection \<open>Arrays allocated before a round\<close>

lemma frame_refl [simp]: "frame s s"
  by (simp add: frame_def)

lemma frame_trans: "frame s t \<Longrightarrow> frame t u \<Longrightarrow> frame s u"
  by (auto simp: frame_def)

lemma preserves_ret [intro!]: "preserves (ret x)"
  by (simp add: preserves_def ret_def)

lemma preserves_lift [intro!]: "preserves (lift r)"
  by (simp add: preserves_def lift_def)

lemma preserves_py_assert [intro!]: "preserves (py_assert b)"
  by (simp add: py_assert_def preserves_lift)

lemma preserves_emit [intro!]: "preserves (emit e)"
  by (simp add: preserves_def emit_def frame_def)

lemma preserves_time_time [intro!]: "preserves (time_time w)"
  by (simp add: preserves_def time_time_def frame_def)

lemma preserves_deref [intro!]: "preserves (deref p)"
  by (simp add: preserves_def deref_def)

lemma preserves_alloc [intro!]: "preserves (alloc a)"
  by (simp add: preserves_def alloc_def frame_def)

lemma preserves_and_then [intro!]:
  assumes "preserves m" and "\<And>x. preserves (f x)"
  shows "preserves (and_then m f)"
  unfolding preserves_def
proof
  fix s
  show "frame s (snd (and_then m f s))"
  proof (cases "m s")
    case (Pair r t)
    from assms(1) Pair have st: "frame s t"
      by (metis preserves_def snd_conv)
    show ?thesis
    proof (cases r)
      case (Inl e)
      with Pair st show ?thesis by (simp add: and_then_def)
    next
      case (Inr x)
      from assms(2) [of x] have "frame t (snd (f x t))"
        by (simp add: preserves_def)
      with Pair Inr st show ?thesis
        by (auto simp: and_then_def intro: frame_trans)
    qed
  qed
qed

lemma preserves_if [intro!]:
  "preserves m1 \<Longrightarrow> preserves m2 \<Longrightarrow> preserves (if c then m1 else m2)"
  by simp

lemma preserves_case_prod [intro!]:
  "(\<And>a b. preserves (f a b)) \<Longrightarrow> preserves (case x of (a, b) \<Rightarrow> f a b)"
  by (cases x) simp

lemma preserves_normalized [intro!]: "preserves (normalized p)"
  unfolding normalized_def by (intro preserves_and_then preserves_deref preserves_alloc)

lemma preserves_fit [intro!]: "preserves (fit E w self X Yk)"
  unfolding fit_def by (intro preserves_and_then preserves_emit preserves_lift)

lemma preserves_draw_log_weight [intro!]: "preserves (draw_log_weight E seed)"
  unfolding draw_log_weight_def
  by (cases seed) (auto intro!: preserves_and_then preserves_emit preserves_lift)

lemma preserves_restarts [intro!]: "preserves (restarts E w self f bs acc inits)"
  by (induction inits arbitrary: acc) (auto intro!: preserves_and_then)

lemma preserves_priv_optimize [intro!]: "preserves (priv_optimize E w self f m n seed)"
  unfolding priv_optimize_def by (intro preserves_and_then preserves_emit preserves_lift preserves_restarts preserves_ret)

lemma preserves_optimize: "preserves (optimize E w self Xr Yr m n seed)"
  unfolding optimize_def
  by (intro preserves_and_then preserves_case_prod preserves_if preserves_ret preserves_lift
        preserves_py_assert preserves_emit preserves_time_time preserves_deref preserves_alloc
        preserves_normalized preserves_fit preserves_draw_log_weight preserves_priv_optimize)

subsection \<open>More concrete rounds\<close>

lemma demo_run_world2:
  "optimize demo_env demo_world2 demo_self 0 1 ''uniform'' 2 (Some 0) demo_state
     = (Inr ([10], demo_info\<lparr>time_surrogate := 2, time_acq := 2, time_overall := 10\<rparr>), demo_final)"
  by (simp add: model_simps demo_simps demo_info_def demo_final_def demo_world2_def)

lemma demo_run_seed1:
  "optimize demo_env demo_world demo_self 0 1 ''uniform'' 2 (Some 1) demo_state
     = (Inr ([10], demo_info1), demo_final1)"
  by (simp add: model_simps demo_simps demo_info_def demo_final_def demo_info1_def demo_final1_def)


subsection \<open>Scores in binary64\<close>

text \<open>The scores \<open>2 ^ 53 - 9\<close> and \<open>2 ^ 53 - 8\<close> are binary64 values. Their products with
  10 lie in the binade of \<open>2 ^ 56\<close>, where the values are the multiples of 16; their
  products with 30 lie in the binade of \<open>2 ^ 57\<close>, where the values are the multiples
  of 32.\<close>

lemma fl64_scores:
  "fl64 9007199254740983 = Finite 9007199254740983"
  "fl64 9007199254740984 = Finite 9007199254740984"
  by (simp_all add: fl64_int)

lemma fl64_scores_times_10:
  "fl64 90071992547409830 = Finite 90071992547409824"
  "fl64 90071992547409840 = Finite 90071992547409840"
proof -
  have "round64 90071992547409830 = 90071992547409824"
    by (subst round64_eval [where n = 56]) (simp_all add: round_half_even_def)
  moreover have "round64 90071992547409840 = 90071992547409840"
    by (subst round64_eval [where n = 56]) (simp_all add: round_half_even_def)
  ultimately show "fl64 90071992547409830 = Finite 90071992547409824"
    "fl64 90071992547409840 = Finite 90071992547409840"
    by (simp_all add: fl64_def)
qed

lemma fl64_scores_times_30:
  "fl64 270215977642229490 = Finite 270215977642229504"
  "fl64 270215977642229520 = Finite 270215977642229504"
proof -
  have "round64 270215977642229490 = 270215977642229504"
    by (subst round64_eval [where n = 57]) (simp_all add: round_half_even_def)
  moreover have "round64 270215977642229520 = 270215977642229504"
    by (subst round64_eval [where n = 57]) (simp_all add: round_half_even_def)
  ultimately show "fl64 270215977642229490 = Finite 270215977642229504"
    "fl64 270215977642229520 = Finite 270215977642229504"
    by (simp_all add: fl64_def)
qed

subsection \<open>The normaliser and the scaling\<close>

text \<open>Without the guard the quotient of a constant column is \<open>0 / 0\<close>.\<close>

lemma unguarded_quotient_is_NaN:
  "div64 (sub64 (Finite c) (Finite c)) (sub64 (Finite c) (Finite c)) = NaN"
  by (simp add: fl64_def)


text \<open>A successful \<open>compute_acquisitions\<close> scales the scores of the acquisition rule,
  which do not depend on the multiplier.\<close>

lemma compute_acquisitions64_Inr:
  assumes "compute_acquisitions64 E self X X_train Y_train cv iv h = Inr a"
  shows "\<exists>r. a = np_multiply64 r (MULTIPLIER_ACQ E)
           \<and> (\<forall>m. compute_acquisitions64 (E\<lparr>MULTIPLIER_ACQ := m\<rparr>) self X X_train Y_train cv iv h
                     = Inr (np_multiply64 r m))"
  using assms by (auto simp: compute_acquisitions64_def)

lemma demo_scores_10:
  "compute_acquisitions64 demo_env64 demo_self (Arr2 \<lparr>shape1 = 1, rows = [[6], [10]]\<rparr>) demo_X
     (Arr2 \<lparr>shape1 = 1, rows = [[0], [1]]\<rparr>) (demo_cov demo_X) (demo_cov demo_X) demo_hyps
     = Inr [Finite 90071992547409824, Finite 90071992547409840]"
  by (simp add: compute_acquisitions64_def np_multiply64_def model_simps demo_simps demo_env64_def
      fl64_scores_times_10)

lemma demo_scores_30:
  "compute_acquisitions64 (demo_env64\<lparr>MULTIPLIER_ACQ := 3 * MULTIPLIER_ACQ demo_env64\<rparr>) demo_self
     (Arr2 \<lparr>shape1 = 1, rows = [[6], [10]]\<rparr>) demo_X
     (Arr2 \<lparr>shape1 = 1, rows = [[0], [1]]\<rparr>) (demo_cov demo_X) (demo_cov demo_X) demo_hyps
     = Inr [Finite 270215977642229504, Finite 270215977642229504]"
  by (simp add: compute_acquisitions64_def np_multiply64_def model_simps demo_simps demo_env64_def
      fl64_scores_times_30)

section \<open>Properties of the round\<close>

text \<open>
  C1. For every valid domain (every interval has \<open>lo \<le> hi\<close>) and every successful call
  of \<open>optimize\<close>, the returned next point has as many coordinates as the domain has
  dimensions and each lies in its interval, bounds included; so does every row of the
  report's \<open>next_points\<close>. The returned point is what the bounds check made of the
  restart optimizer's best candidate: that candidate with every coordinate clamped.
\<close>

theorem optimize_next_point_in_bounds:
  assumes domain: "list_all (\<lambda>(lo, hi). lo \<le> hi) (range_X self)"
      and run: "optimize E w self X_train Y_train str_sampling_method num_samples seed s
                  = (Inr (next_point, info), s')"
  shows "list_all2 (\<lambda>x (lo, hi). lo \<le> x \<and> x \<le> hi) next_point (range_X self)
       \<and> list_all (\<lambda>r. list_all2 (\<lambda>x (lo, hi). lo \<le> x \<and> x \<le> hi) r (range_X self))
           (rows (next_points info))
       \<and> (\<exists>f s1 s2 best cands.
             priv_optimize E w self f str_sampling_method num_samples seed s1 = (Inr (best, cands), s2)
           \<and> next_point = clamp_point (get_bounds self) best
           \<and> check_points_in_bounds cands (get_bounds self) = Inr (next_points info))"
proof -
  from optimize_Inr [OF run] obtain k U best cm where
    po: "priv_optimize E w self
           (fun_negative_acquisition (closure_1 E self (heap s X_train) (heap s') info)
              (closure_2 E self (heap s X_train) (heap s') info) U)
           str_sampling_method num_samples seed
           (s'\<lparr>ticks := ticks s + 4,
               trace := trace s @ [Fit (heap s X_train) (heap s' (Y_normalized_1 info)),
                                   Fit (heap s X_train) (heap s' (Y_normalized_2 info)),
                                   Uniform (k + 101) (- 3) 3]\<rparr>)
         = (Inr (best, Arr2 cm), s'\<lparr>ticks := ticks s + 4\<rparr>)" and
    p: "next_point = clamp_point (range_X self) best" and
    nps: "next_points info = cm\<lparr>rows := map (clamp_point (range_X self)) (rows cm)\<rparr>" and
    acq: "fun_negative_acquisition (closure_1 E self (heap s X_train) (heap s') info)
            (closure_2 E self (heap s X_train) (heap s') info) U (Arr2 (next_points info))
          = Inr (acquisitions info)"
    by blast
  from acq have "shape1 (next_points info) = num_dim self"
    by (auto simp: fun_negative_acquisition_Inr closure_1_def fun_negative_acquisition_k_Inr
          dest: compute_acquisitions_shape)
  with nps have dim: "shape1 cm = length (range_X self)"
    by (simp add: num_dim_def)
  from priv_optimize_InrD [OF po] obtain rs :: "optimize_result list" and vals where
    arr: "np_array (map res_x rs) = Inr (Arr2 cm)" and
    i: "argmin vals < length (rows cm)" and b: "best = rows cm ! argmin vals"
    by auto
  from np_array_Arr2 [OF arr] have len: "\<forall>r\<in>set (rows cm). length r = shape1 cm"
    by simp
  with i b have "length best = length (range_X self)"
    using dim by simp
  with domain p have 1: "list_all2 (\<lambda>x (lo, hi). lo \<le> x \<and> x \<le> hi) next_point (range_X self)"
    by (simp add: clamp_point_in_bounds)
  from len dim domain nps
  have 2: "list_all (\<lambda>r. list_all2 (\<lambda>x (lo, hi). lo \<le> x \<and> x \<le> hi) r (range_X self))
             (rows (next_points info))"
    by (simp add: list_all_iff clamp_point_in_bounds)
  have "check_points_in_bounds (Arr2 cm) (get_bounds self) = Inr (next_points info)"
    using nps by (simp add: get_bounds_def)
  moreover have "next_point = clamp_point (get_bounds self) best"
    using p by (simp add: get_bounds_def)
  ultimately have 3: "\<exists>f s1 s2 best cands.
             priv_optimize E w self f str_sampling_method num_samples seed s1 = (Inr (best, cands), s2)
           \<and> next_point = clamp_point (get_bounds self) best
           \<and> check_points_in_bounds cands (get_bounds self) = Inr (next_points info)"
    using po by blast
  from 1 2 3 show ?thesis by blast
qed

text \<open>In the concrete round the best candidate is \<open>[12]\<close>, outside the domain
  \<open>[0, 10]\<close>; the round returns \<open>[10]\<close>.\<close>

theorem optimize_next_point_in_bounds_witness:
  "list_all (\<lambda>(lo, hi). lo \<le> hi) (range_X demo_self)
   \<and> optimize demo_env demo_world demo_self 0 1 ''uniform'' 2 (Some 0) demo_state
       = (Inr ([10], demo_info), demo_final)
   \<and> list_all2 (\<lambda>x (lo, hi). lo \<le> x \<and> x \<le> hi) [10] (range_X demo_self)
   \<and> list_all (\<lambda>r. list_all2 (\<lambda>x (lo, hi). lo \<le> x \<and> x \<le> hi) r (range_X demo_self))
       (rows (next_points demo_info))"
proof -
  have domain: "list_all (\<lambda>(lo, hi). lo \<le> hi) (range_X demo_self)"
    by (simp add: demo_self_def)
  from optimize_next_point_in_bounds [OF domain demo_run] domain demo_run
  show ?thesis by blast
qed

text \<open>
  C2. In every successful round the seed is an integer \<open>k\<close>, the scalarization exponent
  \<open>U\<close> is the one draw \<open>RandomState(k + 101).uniform(low=-3, high=3)\<close> of the round, the
  report's acquisitions are the combined closure at the report's candidates, and at
  every candidate batch where the two per-objective closures return equally many
  scores the combined closure returns \<open>negAcq_1(X) + 10^U * negAcq_2(X)\<close>, score by
  score.
\<close>

theorem scalarization_weight_and_combination:
  assumes run: "optimize E w self X_train Y_train str_sampling_method num_samples seed s
                  = (Inr (next_point, info), s')"
  shows "\<exists>k U. seed = Some k
       \<and> random_state_uniform E (k + 101) (- 3) 3 = Inr U
       \<and> filter is_draw (trace s') = filter is_draw (trace s) @ [Uniform (k + 101) (- 3) 3]
       \<and> fun_negative_acquisition (closure_1 E self (heap s X_train) (heap s') info)
            (closure_2 E self (heap s X_train) (heap s') info) U (Arr2 (next_points info))
          = Inr (acquisitions info)
       \<and> (\<forall>X a1 a2.
             closure_1 E self (heap s X_train) (heap s') info X = Inr a1
           \<and> closure_2 E self (heap s X_train) (heap s') info X = Inr a2
           \<and> length a1 = length a2
           \<longrightarrow> fun_negative_acquisition (closure_1 E self (heap s X_train) (heap s') info)
                 (closure_2 E self (heap s X_train) (heap s') info) U X
               = Inr (map2 (\<lambda>x y. x + 10 powr U * y) a1 a2))"
proof -
  from optimize_Inr [OF run] obtain k U where
    k: "seed = Some k" and U: "random_state_uniform E (k + 101) (- 3) 3 = Inr U" and
    acq: "fun_negative_acquisition (closure_1 E self (heap s X_train) (heap s') info)
            (closure_2 E self (heap s X_train) (heap s') info) U (Arr2 (next_points info))
          = Inr (acquisitions info)"
    by blast
  from optimize_Inr_trace [OF run] k
  have tr: "filter is_draw (trace s') = filter is_draw (trace s) @ [Uniform (k + 101) (- 3) 3]"
    by (auto simp: filter_map comp_def)
  have "fun_negative_acquisition f1 f2 U X = Inr (map2 (\<lambda>x y. x + 10 powr U * y) a1 a2)"
    if "f1 X = Inr a1" "f2 X = Inr a2" "length a1 = length a2" for f1 f2 X a1 a2
    using that
    by (simp add: fun_negative_acquisition_def np_add_same_length np_scale_def zip_map2
          case_prod_unfold)
  with k U tr acq show ?thesis by blast
qed

text \<open>In the concrete round the seed is 0, the draw of the generator seeded with 101
  is 1, and the report's acquisitions are \<open>negAcq_1 + 10 * negAcq_2\<close>.\<close>

theorem scalarization_weight_and_combination_witness:
  "optimize demo_env demo_world demo_self 0 1 ''uniform'' 2 (Some 0) demo_state
     = (Inr ([10], demo_info), demo_final)
   \<and> random_state_uniform demo_env (0 + 101) (- 3) 3 = Inr 1
   \<and> filter is_draw (trace demo_final) = filter is_draw (trace demo_state) @ [Uniform (0 + 101) (- 3) 3]
   \<and> closure_1 demo_env demo_self (heap demo_state 0) (heap demo_final) demo_info
        (Arr2 (next_points demo_info)) = Inr [- 70, - 110]
   \<and> closure_2 demo_env demo_self (heap demo_state 0) (heap demo_final) demo_info
        (Arr2 (next_points demo_info)) = Inr [- 60, - 100]
   \<and> acquisitions demo_info = map2 (\<lambda>x y. x + 10 powr 1 * y) [- 70, - 110] [- 60, - 100]"
proof -
  have c1: "closure_1 demo_env demo_self (heap demo_state 0) (heap demo_final) demo_info
        (Arr2 (next_points demo_info)) = Inr [- 70, - 110]"
    by (simp add: closure_1_def model_simps demo_simps demo_info_def demo_final_def)
  have c2: "closure_2 demo_env demo_self (heap demo_state 0) (heap demo_final) demo_info
        (Arr2 (next_points demo_info)) = Inr [- 60, - 100]"
    by (simp add: closure_2_def model_simps demo_simps demo_info_def demo_final_def)
  from scalarization_weight_and_combination [OF demo_run] obtain k U where
    k: "Some 0 = Some k" and U: "random_state_uniform demo_env (k + 101) (- 3) 3 = Inr U" and
    tr: "filter is_draw (trace demo_final) = filter is_draw (trace demo_state) @ [Uniform (k + 101) (- 3) 3]" and
    acq: "fun_negative_acquisition (closure_1 demo_env demo_self (heap demo_state 0) (heap demo_final) demo_info)
            (closure_2 demo_env demo_self (heap demo_state 0) (heap demo_final) demo_info) U
            (Arr2 (next_points demo_info)) = Inr (acquisitions demo_info)" and
    formula: "\<And>X a1 a2.
             closure_1 demo_env demo_self (heap demo_state 0) (heap demo_final) demo_info X = Inr a1
           \<Longrightarrow> closure_2 demo_env demo_self (heap demo_state 0) (heap demo_final) demo_info X = Inr a2
           \<Longrightarrow> length a1 = length a2
           \<Longrightarrow> fun_negative_acquisition (closure_1 demo_env demo_self (heap demo_state 0) (heap demo_final) demo_info)
                 (closure_2 demo_env demo_self (heap demo_state 0) (heap demo_final) demo_info) U X
               = Inr (map2 (\<lambda>x y. x + 10 powr U * y) a1 a2)"
    by blast
  from k have k0: "k = 0" by simp
  from U k0 have U1: "U = 1" by (simp add: demo_env_def)
  from formula [OF c1 c2] acq U1
  have "acquisitions demo_info = map2 (\<lambda>x y. x + 10 powr 1 * y) [- 70, - 110] [- 60, - 100]"
    by simp
  with demo_run c1 c2 tr k0 U U1 show ?thesis by simp
qed

text \<open>
  C3. When the restart optimizer returns, its candidates are the points \<open>x\<close> of the
  local runs in restart order, and the point it returns is the candidate whose score
  is lowest when the objective is evaluated again on the candidates: no candidate
  scores lower and every earlier candidate scores strictly higher, so on a tie the
  first-found candidate is returned. The objective values the local runs report play
  no part: replacing them by any others leaves the outcome unchanged.
\<close>

theorem restart_selection_by_reevaluation:
  assumes run: "priv_optimize E w self f str_sampling_method num_samples seed s
                  = (Inr (best, cands), s')"
  shows "(\<exists>initials results candidates scores i.
           get_samples E (entropy w) self str_sampling_method num_samples seed = Inr initials
         \<and> list_all2 (\<lambda>x0 r. minimize E (entropy w) f x0 (get_bounds self)
                                 (str_optimizer_method_bo self) = Inr r) initials results
         \<and> cands = Arr2 candidates \<and> rows candidates = map res_x results
         \<and> f cands = Inr scores
         \<and> i < length (rows candidates) \<and> i < length scores
         \<and> best = rows candidates ! i
         \<and> (\<forall>j<length scores. scores ! i \<le> scores ! j)
         \<and> (\<forall>j<i. scores ! i < scores ! j))
       \<and> priv_optimize
           (E\<lparr>minimize := \<lambda>h f x0 bs meth.
                 (case minimize E h f x0 bs meth of Inl e \<Rightarrow> Inl e
                  | Inr r \<Rightarrow> Inr (r\<lparr>res_fun := reported r\<rparr>))\<rparr>)
           w self f str_sampling_method num_samples seed s
         = priv_optimize E w self f str_sampling_method num_samples seed s"
proof -
  from priv_optimize_InrD [OF run] obtain inits rs cm vals where
    a: "get_samples E (entropy w) self str_sampling_method num_samples seed = Inr inits"
       "list_all2 (\<lambda>x0 r. minimize E (entropy w) f x0 (get_bounds self)
                             (str_optimizer_method_bo self) = Inr r) inits rs"
       "np_array (map res_x rs) = Inr (Arr2 cm)" "cands = Arr2 cm"
       "f (Arr2 cm) = Inr vals" "vals \<noteq> []" "argmin vals < length (rows cm)"
       "best = rows cm ! argmin vals"
    by blast
  from np_array_Arr2 [OF a(3)] have "rows cm = map res_x rs" by simp
  with a argmin_correct [OF a(6)]
  have 1: "\<exists>initials results candidates scores i.
           get_samples E (entropy w) self str_sampling_method num_samples seed = Inr initials
         \<and> list_all2 (\<lambda>x0 r. minimize E (entropy w) f x0 (get_bounds self)
                                 (str_optimizer_method_bo self) = Inr r) initials results
         \<and> cands = Arr2 candidates \<and> rows candidates = map res_x results
         \<and> f cands = Inr scores
         \<and> i < length (rows candidates) \<and> i < length scores
         \<and> best = rows candidates ! i
         \<and> (\<forall>j<length scores. scores ! i \<le> scores ! j)
         \<and> (\<forall>j<i. scores ! i < scores ! j)"
    by blast
  have 2: "priv_optimize
           (E\<lparr>minimize := \<lambda>h f x0 bs meth.
                 (case minimize E h f x0 bs meth of Inl e \<Rightarrow> Inl e
                  | Inr r \<Rightarrow> Inr (r\<lparr>res_fun := reported r\<rparr>))\<rparr>)
           w self f str_sampling_method num_samples seed s
         = priv_optimize E w self f str_sampling_method num_samples seed s"
    by (simp add: priv_optimize_def restarts_reported_value_fun)
  from 1 2 show ?thesis by blast
qed

text \<open>Three restarts whose re-evaluated scores are 1, 1 and 5 while the local runs
  report -2, -8 and -5: the first candidate is returned, not the one the reports
  favour.\<close>

theorem restart_selection_by_reevaluation_witness:
  "priv_optimize demo_env demo_world demo_self demo_objective ''uniform'' 3 (Some 0) demo_state
     = (Inr ([6], Arr2 \<lparr>shape1 = 1, rows = [[6], [12], [9]]\<rparr>),
        demo_state\<lparr>trace := [Sample ''uniform'' 3 (Some 0), Minimize [2], Minimize [8], Minimize [5]]\<rparr>)
   \<and> demo_objective (Arr2 \<lparr>shape1 = 1, rows = [[6], [12], [9]]\<rparr>) = Inr [1, 1, 5]
   \<and> map (\<lambda>x0. minimize demo_env 0 demo_objective x0 [(0, 10)] ''L-BFGS-B'') [[2], [8], [5]]
       = [Inr \<lparr>res_x = [6], res_fun = - 2\<rparr>, Inr \<lparr>res_x = [12], res_fun = - 8\<rparr>,
          Inr \<lparr>res_x = [9], res_fun = - 5\<rparr>]
   \<and> (\<exists>i<length [[6], [12], [9::real]].
         [6] = [[6], [12], [9::real]] ! i
       \<and> (\<forall>j<length [1, 1, 5::real]. [1, 1, 5::real] ! i \<le> [1, 1, 5] ! j)
       \<and> (\<forall>j<i. [1, 1, 5::real] ! i < [1, 1, 5] ! j))"
proof -
  have run: "priv_optimize demo_env demo_world demo_self demo_objective ''uniform'' 3 (Some 0) demo_state
     = (Inr ([6], Arr2 \<lparr>shape1 = 1, rows = [[6], [12], [9]]\<rparr>),
        demo_state\<lparr>trace := [Sample ''uniform'' 3 (Some 0), Minimize [2], Minimize [8], Minimize [5]]\<rparr>)"
    by (simp add: model_simps demo_simps demo_objective_def)
  have scores: "demo_objective (Arr2 \<lparr>shape1 = 1, rows = [[6], [12], [9]]\<rparr>) = Inr [1, 1, 5]"
    by (simp add: demo_objective_def demo_rows_def)
  have reported: "map (\<lambda>x0. minimize demo_env 0 demo_objective x0 [(0, 10)] ''L-BFGS-B'') [[2], [8], [5]]
       = [Inr \<lparr>res_x = [6], res_fun = - 2\<rparr>, Inr \<lparr>res_x = [12], res_fun = - 8\<rparr>,
          Inr \<lparr>res_x = [9], res_fun = - 5\<rparr>]"
    by (simp add: demo_env_def)
  from restart_selection_by_reevaluation [OF run] obtain candidates sc i where
    c: "Arr2 \<lparr>shape1 = 1, rows = [[6], [12], [9]]\<rparr> = Arr2 candidates" and
    s: "demo_objective (Arr2 \<lparr>shape1 = 1, rows = [[6], [12], [9]]\<rparr>) = Inr sc" and
    i: "i < length (rows candidates)" and b: "[6] = rows candidates ! i" and
    m: "\<forall>j<length sc. sc ! i \<le> sc ! j" and f: "\<forall>j<i. sc ! i < sc ! j"
    by blast
  from c have rc: "rows candidates = [[6], [12], [9]]" by auto
  from s scores have sc: "sc = [1, 1, 5]" by simp
  from i b m f have "\<exists>i<length [[6], [12], [9::real]].
         [6] = [[6], [12], [9::real]] ! i
       \<and> (\<forall>j<length [1, 1, 5::real]. [1, 1, 5::real] ! i \<le> [1, 1, 5] ! j)
       \<and> (\<forall>j<i. [1, 1, 5::real] ! i < [1, 1, 5] ! j)"
    unfolding rc sc by blast
  with run scores reported show ?thesis by blast
qed

text \<open>
  C4. A response matrix whose number of columns is not two (a third column, say), or
  a number of samples that is zero or negative, makes \<open>optimize\<close> raise
  \<open>AssertionError\<close> and leave the state as it was: no collaborator call is logged (the
  surrogate fitter is not invoked), nothing is allocated, and no result is returned.
\<close>

theorem optimize_contract_violation:
  assumes "(\<exists>M. heap s Y_train = Arr2 M \<and> shape1 M \<noteq> 2) \<or> num_samples \<le> 0"
  shows "optimize E w self X_train Y_train str_sampling_method num_samples seed s
           = (Inl AssertionError, s)"
  using assms
  by (auto simp: optimize_def and_then_deref and_then_assert)

text \<open>A response matrix with three columns, and \<open>num_samples = 0\<close>.\<close>

theorem optimize_contract_violation_witness:
  "heap demo_state3 1 = Arr2 \<lparr>shape1 = 3, rows = [[5, 7, 1], [9, 7, 2]]\<rparr>
   \<and> optimize demo_env demo_world demo_self 0 1 ''uniform'' 2 (Some 0) demo_state3
       = (Inl AssertionError, demo_state3)
   \<and> optimize demo_env demo_world demo_self 0 1 ''uniform'' 0 (Some 0) demo_state
       = (Inl AssertionError, demo_state)
   \<and> trace demo_state3 = [] \<and> trace demo_state = []"
proof -
  have Y3: "heap demo_state3 1 = Arr2 \<lparr>shape1 = 3, rows = [[5, 7, 1], [9, 7, 2]]\<rparr>"
    by (simp add: demo_state3_def demo_Y3_def)
  then have h1: "(\<exists>M. heap demo_state3 1 = Arr2 M \<and> shape1 M \<noteq> 2) \<or> (2::int) \<le> 0"
    by simp
  have h2: "(\<exists>M. heap demo_state 1 = Arr2 M \<and> shape1 M \<noteq> 2) \<or> (0::int) \<le> 0"
    by simp
  from optimize_contract_violation [OF h1] optimize_contract_violation [OF h2] Y3
  show ?thesis by (simp add: demo_state3_def demo_state_def)
qed

text \<open>
  C5. The scalarization exponent drawn for a seed does not depend on the state or on
  anything else of the run: two draws with the same seed give the same value. If the
  sampling provider, the surrogate fitter and the local optimizer are deterministic,
  two runs of \<open>optimize\<close> on the same arguments and the same store, under any two
  clocks and hidden states, end in the same state, raise the same error if one
  raises, and otherwise return the same next point and reports that differ at most in
  their three timings.
\<close>

theorem optimize_reproducible:
  "fst (draw_log_weight E seed s1) = fst (draw_log_weight E seed s2)
   \<and> (deterministic E \<longrightarrow>
        snd (optimize E w1 self X_train Y_train str_sampling_method num_samples seed s)
          = snd (optimize E w2 self X_train Y_train str_sampling_method num_samples seed s)
      \<and> (\<forall>e. fst (optimize E w1 self X_train Y_train str_sampling_method num_samples seed s) = Inl e
             \<longrightarrow> fst (optimize E w2 self X_train Y_train str_sampling_method num_samples seed s) = Inl e)
      \<and> (\<forall>p info.
            fst (optimize E w1 self X_train Y_train str_sampling_method num_samples seed s) = Inr (p, info)
            \<longrightarrow> (\<exists>info'. fst (optimize E w2 self X_train Y_train str_sampling_method num_samples seed s)
                           = Inr (p, info')
                       \<and> untimed info' = untimed info)))"
proof -
  have 1: "fst (draw_log_weight E seed s1) = fst (draw_log_weight E seed s2)"
    by (cases seed) (simp_all add: draw_log_weight_def and_then_emit lift_def)
  have 2: "snd (optimize E w1 self X_train Y_train str_sampling_method num_samples seed s)
          = snd (optimize E w2 self X_train Y_train str_sampling_method num_samples seed s)
      \<and> (\<forall>e. fst (optimize E w1 self X_train Y_train str_sampling_method num_samples seed s) = Inl e
             \<longrightarrow> fst (optimize E w2 self X_train Y_train str_sampling_method num_samples seed s) = Inl e)
      \<and> (\<forall>p info.
            fst (optimize E w1 self X_train Y_train str_sampling_method num_samples seed s) = Inr (p, info)
            \<longrightarrow> (\<exists>info'. fst (optimize E w2 self X_train Y_train str_sampling_method num_samples seed s)
                           = Inr (p, info')
                       \<and> untimed info' = untimed info))"
    if "deterministic E"
    using optimize_same_outcome [OF that, of w1 self X_train Y_train str_sampling_method num_samples seed s w2]
    by (cases "fst (optimize E w1 self X_train Y_train str_sampling_method num_samples seed s)";
        cases "fst (optimize E w2 self X_train Y_train str_sampling_method num_samples seed s)")
       (auto simp: same_outcome_def)
  from 1 2 show ?thesis by blast
qed

text \<open>The concrete round under two clocks and two hidden states: the same next point,
  other timings.\<close>

theorem optimize_reproducible_witness:
  "deterministic demo_env
   \<and> entropy demo_world2 \<noteq> entropy demo_world
   \<and> fst (optimize demo_env demo_world demo_self 0 1 ''uniform'' 2 (Some 0) demo_state)
       = Inr ([10], demo_info)
   \<and> fst (optimize demo_env demo_world2 demo_self 0 1 ''uniform'' 2 (Some 0) demo_state)
       = Inr ([10], demo_info\<lparr>time_surrogate := 2, time_acq := 2, time_overall := 10\<rparr>)
   \<and> untimed (demo_info\<lparr>time_surrogate := 2, time_acq := 2, time_overall := 10\<rparr>) = untimed demo_info
   \<and> snd (optimize demo_env demo_world demo_self 0 1 ''uniform'' 2 (Some 0) demo_state)
       = snd (optimize demo_env demo_world2 demo_self 0 1 ''uniform'' 2 (Some 0) demo_state)"
proof -
  have d: "deterministic demo_env"
    by (simp add: deterministic_def demo_env_def)
  have e: "entropy demo_world2 \<noteq> entropy demo_world"
    by (simp add: demo_world_def demo_world2_def)
  from optimize_reproducible [of demo_env "Some 0" demo_state demo_state demo_world demo_self 0 1
      "''uniform''" 2 demo_state demo_world2] d
  have "snd (optimize demo_env demo_world demo_self 0 1 ''uniform'' 2 (Some 0) demo_state)
       = snd (optimize demo_env demo_world2 demo_self 0 1 ''uniform'' 2 (Some 0) demo_state)"
    by blast
  with d e demo_run demo_run_world2 show ?thesis
    by (simp add: untimed_def)
qed

text \<open>
  C6, as stated, fails: the restart sampler and the scalarization generator are
  seeded from the one argument \<open>seed\<close>. In the concrete environment the round with
  seed 0 samples with seed 0 and draws from the generator seeded 101 (exponent 1); the
  round with seed 1 samples with seed 1 and draws from the generator seeded 102
  (exponent 0). Changing the restart-sampling seed changed the weight, and changing
  the seed of the scalarization draw changed the restart points (2 and 8 against 3
  and 9): through \<open>optimize\<close> neither seed changes without the other.
\<close>

theorem decoupled_seeds_counterexample:
  "optimize demo_env demo_world demo_self 0 1 ''uniform'' 2 (Some 0) demo_state
     = (Inr ([10], demo_info), demo_final)
   \<and> optimize demo_env demo_world demo_self 0 1 ''uniform'' 2 (Some 1) demo_state
     = (Inr ([10], demo_info1), demo_final1)
   \<and> filter is_seeded (trace demo_final)
       = [Uniform 101 (- 3) 3, Sample ''uniform'' 2 (Some 0)]
   \<and> filter is_seeded (trace demo_final1)
       = [Uniform 102 (- 3) 3, Sample ''uniform'' 2 (Some 1)]
   \<and> random_state_uniform demo_env 101 (- 3) 3 = Inr 1
   \<and> random_state_uniform demo_env 102 (- 3) 3 = Inr 0
   \<and> filter (\<lambda>e. \<not> is_seeded e) (trace demo_final)
       = [Fit demo_X (Arr2 \<lparr>shape1 = 1, rows = [[0], [1]]\<rparr>),
          Fit demo_X (Arr2 \<lparr>shape1 = 1, rows = [[0], [0]]\<rparr>), Minimize [2], Minimize [8]]
   \<and> filter (\<lambda>e. \<not> is_seeded e) (trace demo_final1)
       = [Fit demo_X (Arr2 \<lparr>shape1 = 1, rows = [[0], [1]]\<rparr>),
          Fit demo_X (Arr2 \<lparr>shape1 = 1, rows = [[0], [0]]\<rparr>), Minimize [3], Minimize [9]]
   \<and> acquisitions demo_info = [- 670, - 1110]
   \<and> acquisitions demo_info1 = [- 150, - 210]"
  using demo_run demo_run_seed1
  by (auto simp: demo_final_def demo_final1_def demo_info_def demo_info1_def demo_env_def)

text \<open>
  C6, amended. In every successful round the seed is an integer \<open>k\<close>; the
  scalarization generator is seeded with \<open>k + 101\<close> and the restart sampler is called
  with \<open>k\<close>, so the two seeds differ by 101 and change together. The exponent is the
  generator's answer for \<open>k + 101\<close> alone, and the restart points are the sampler's
  answer for the sampling method, the number of samples and \<open>k\<close> alone. The round
  makes no other seeded call.
\<close>

theorem seeds_of_a_round:
  assumes run: "optimize E w self X_train Y_train str_sampling_method num_samples seed s
                  = (Inr (p, info), s')"
  shows "\<exists>k U initials.
           seed = Some k
         \<and> random_state_uniform E (k + 101) (- 3) 3 = Inr U
         \<and> get_samples E (entropy w) self str_sampling_method num_samples (Some k)
             = Inr initials
         \<and> trace s' = trace s @ [Fit (heap s X_train) (heap s' (Y_normalized_1 info)),
                                 Fit (heap s X_train) (heap s' (Y_normalized_2 info)),
                                 Uniform (k + 101) (- 3) 3,
                                 Sample str_sampling_method num_samples (Some k)]
                               @ map Minimize initials"
  using optimize_Inr_trace [OF run] by blast

text \<open>The concrete round with seed 1.\<close>

theorem seeds_of_a_round_witness:
  "optimize demo_env demo_world demo_self 0 1 ''uniform'' 2 (Some 1) demo_state
     = (Inr ([10], demo_info1), demo_final1)
   \<and> (\<exists>U initials.
         random_state_uniform demo_env (1 + 101) (- 3) 3 = Inr U
       \<and> get_samples demo_env (entropy demo_world) demo_self ''uniform'' 2 (Some 1)
           = Inr initials
       \<and> trace demo_final1
           = trace demo_state @ [Fit (heap demo_state 0) (heap demo_final1 (Y_normalized_1 demo_info1)),
                                 Fit (heap demo_state 0) (heap demo_final1 (Y_normalized_2 demo_info1)),
                                 Uniform (1 + 101) (- 3) 3,
                                 Sample ''uniform'' 2 (Some 1)]
                               @ map Minimize initials)"
  using seeds_of_a_round [OF demo_run_seed1] demo_run_seed1 by auto



text \<open>
  C8, as stated, fails in binary64. In the concrete environment the acquisition rule
  gives two candidates the scores \<open>2 ^ 53 - 9\<close> and \<open>2 ^ 53 - 8\<close>. With the multiplier 10
  \<open>compute_acquisitions\<close> returns two different scores, the second candidate strictly
  ahead. With the multiplier multiplied by 3 the two products round to the same value:
  the candidates tie, and the first is now among the best.
\<close>

theorem acquisition_scaling_order_counterexample:
  "fl64 9007199254740983 = Finite 9007199254740983
   \<and> fl64 9007199254740984 = Finite 9007199254740984
   \<and> MULTIPLIER_ACQ demo_env64 = 10
   \<and> compute_acquisitions64 demo_env64 demo_self (Arr2 \<lparr>shape1 = 1, rows = [[6], [10]]\<rparr>) demo_X
        (Arr2 \<lparr>shape1 = 1, rows = [[0], [1]]\<rparr>) (demo_cov demo_X) (demo_cov demo_X) demo_hyps
       = Inr [Finite 90071992547409824, Finite 90071992547409840]
   \<and> compute_acquisitions64 (demo_env64\<lparr>MULTIPLIER_ACQ := 3 * MULTIPLIER_ACQ demo_env64\<rparr>) demo_self
        (Arr2 \<lparr>shape1 = 1, rows = [[6], [10]]\<rparr>) demo_X
        (Arr2 \<lparr>shape1 = 1, rows = [[0], [1]]\<rparr>) (demo_cov demo_X) (demo_cov demo_X) demo_hyps
       = Inr [Finite 270215977642229504, Finite 270215977642229504]
   \<and> lt64 (Finite 90071992547409824) (Finite 90071992547409840)
   \<and> \<not> le64 (Finite 90071992547409840) (Finite 90071992547409824)
   \<and> \<not> lt64 (Finite 270215977642229504) (Finite 270215977642229504)
   \<and> le64 (Finite 270215977642229504) (Finite 270215977642229504)"
  using demo_scores_10 demo_scores_30 fl64_scores
  by (simp add: demo_env64_def demo_env_def)

text \<open>
  C8, amended. Let the multiplier be positive and be multiplied by a positive \<open>c\<close>. The
  scaling never reverses two scores of \<open>compute_acquisitions\<close>: a score strictly below
  another under one multiplier is below or equal to it under the other. So a
  candidate that is strictly ahead of every other under the one multiplier is among
  the best under the other. Rounding can make two different scores equal, as above.
\<close>

theorem acquisition_scaling_never_reverses:
  assumes c: "0 < c"
      and m: "0 < MULTIPLIER_ACQ E"
      and a: "compute_acquisitions64 E self X X_train Y_train cv iv h = Inr a"
  shows "\<exists>b. compute_acquisitions64 (E\<lparr>MULTIPLIER_ACQ := c * MULTIPLIER_ACQ E\<rparr>) self X X_train Y_train cv iv h
               = Inr b
           \<and> length b = length a
           \<and> (\<forall>i<length a. \<forall>j<length a. lt64 (a ! i) (a ! j) \<longrightarrow> le64 (b ! i) (b ! j))
           \<and> (\<forall>i<length a. \<forall>j<length a. lt64 (b ! i) (b ! j) \<longrightarrow> le64 (a ! i) (a ! j))
           \<and> (\<forall>i<length a. (\<forall>j<length a. j \<noteq> i \<longrightarrow> lt64 (a ! j) (a ! i))
                              \<longrightarrow> (\<forall>j<length a. le64 (b ! j) (b ! i)))"
proof -
  from compute_acquisitions64_Inr [OF a] obtain r where
    ar: "a = np_multiply64 r (MULTIPLIER_ACQ E)" and
    br: "compute_acquisitions64 (E\<lparr>MULTIPLIER_ACQ := c * MULTIPLIER_ACQ E\<rparr>) self X X_train Y_train cv iv h
           = Inr (np_multiply64 r (c * MULTIPLIER_ACQ E))"
    by blast
  define b where "b = np_multiply64 r (c * MULTIPLIER_ACQ E)"
  have la: "length a = length r" and lb: "length b = length r"
    by (simp_all add: ar b_def np_multiply64_def)
  have ai: "a ! i = fl64 (r ! i * MULTIPLIER_ACQ E)" if "i < length r" for i
    using that by (simp add: ar np_multiply64_def)
  have bi: "b ! i = fl64 (r ! i * (c * MULTIPLIER_ACQ E))" if "i < length r" for i
    using that by (simp add: b_def np_multiply64_def)
  have cm: "0 < c * MULTIPLIER_ACQ E" using c m by simp
  have 1: "le64 (b ! i) (b ! j)" if "i < length r" "j < length r" "lt64 (a ! i) (a ! j)" for i j
  proof -
    from that have "r ! i * MULTIPLIER_ACQ E < r ! j * MULTIPLIER_ACQ E"
      by (auto simp: ai dest: lt64_fl64D)
    with m have "r ! i \<le> r ! j" by simp
    moreover from cm have "0 \<le> c * MULTIPLIER_ACQ E" by (rule less_imp_le)
    ultimately have "r ! i * (c * MULTIPLIER_ACQ E) \<le> r ! j * (c * MULTIPLIER_ACQ E)"
      by (rule mult_right_mono)
    then show ?thesis using that by (simp add: bi fl64_mono)
  qed
  have 2: "le64 (a ! i) (a ! j)" if "i < length r" "j < length r" "lt64 (b ! i) (b ! j)" for i j
  proof -
    from that have "r ! i * (c * MULTIPLIER_ACQ E) < r ! j * (c * MULTIPLIER_ACQ E)"
      by (auto simp: bi dest: lt64_fl64D)
    with cm have "r ! i \<le> r ! j" by (simp only: mult_less_cancel_right_pos less_imp_le)
    moreover from m have "0 \<le> MULTIPLIER_ACQ E" by (rule less_imp_le)
    ultimately have "r ! i * MULTIPLIER_ACQ E \<le> r ! j * MULTIPLIER_ACQ E"
      by (rule mult_right_mono)
    then show ?thesis using that by (simp add: ai fl64_mono)
  qed
  have 3: "le64 (b ! j) (b ! i)"
    if "i < length r" "j < length r" "\<forall>j<length r. j \<noteq> i \<longrightarrow> lt64 (a ! j) (a ! i)" for i j
  proof (cases "j = i")
    case True
    then show ?thesis using that by (simp add: bi fl64_mono)
  next
    case False
    with that have "lt64 (a ! j) (a ! i)" by simp
    with that show ?thesis by (intro 1)
  qed
  from br lb 1 2 3 show ?thesis unfolding b_def [symmetric] la by (intro exI [of _ b]) blast
qed

text \<open>The two candidates of the concrete environment, under the multipliers 10 and 30.\<close>

theorem acquisition_scaling_never_reverses_witness:
  "(0::real) < 3
   \<and> 0 < MULTIPLIER_ACQ demo_env64
   \<and> compute_acquisitions64 demo_env64 demo_self (Arr2 \<lparr>shape1 = 1, rows = [[6], [10]]\<rparr>) demo_X
        (Arr2 \<lparr>shape1 = 1, rows = [[0], [1]]\<rparr>) (demo_cov demo_X) (demo_cov demo_X) demo_hyps
       = Inr [Finite 90071992547409824, Finite 90071992547409840]
   \<and> (\<exists>b. compute_acquisitions64 (demo_env64\<lparr>MULTIPLIER_ACQ := 3 * MULTIPLIER_ACQ demo_env64\<rparr>) demo_self
             (Arr2 \<lparr>shape1 = 1, rows = [[6], [10]]\<rparr>) demo_X
             (Arr2 \<lparr>shape1 = 1, rows = [[0], [1]]\<rparr>) (demo_cov demo_X) (demo_cov demo_X) demo_hyps
            = Inr b
          \<and> length b = 2
          \<and> lt64 (Finite 90071992547409824) (Finite 90071992547409840)
          \<and> le64 (b ! 0) (b ! 1)
          \<and> le64 (b ! 1) (b ! 1))"
proof -
  have c: "(0::real) < 3" by simp
  have m: "0 < MULTIPLIER_ACQ demo_env64" by (simp add: demo_env64_def demo_env_def)
  from acquisition_scaling_never_reverses [OF c m demo_scores_10] obtain b where
    b: "compute_acquisitions64 (demo_env64\<lparr>MULTIPLIER_ACQ := 3 * MULTIPLIER_ACQ demo_env64\<rparr>) demo_self
          (Arr2 \<lparr>shape1 = 1, rows = [[6], [10]]\<rparr>) demo_X
          (Arr2 \<lparr>shape1 = 1, rows = [[0], [1]]\<rparr>) (demo_cov demo_X) (demo_cov demo_X) demo_hyps
         = Inr b"
    and l: "length b = 2"
    and o: "\<forall>i<2. \<forall>j<2. lt64 ([Finite 90071992547409824, Finite 90071992547409840] ! i)
                              ([Finite 90071992547409824, Finite 90071992547409840] ! j)
                        \<longrightarrow> le64 (b ! i) (b ! j)"
    and t: "\<forall>i<2. (\<forall>j<2. j \<noteq> i \<longrightarrow> lt64 ([Finite 90071992547409824, Finite 90071992547409840] ! j)
                                          ([Finite 90071992547409824, Finite 90071992547409840] ! i))
                   \<longrightarrow> (\<forall>j<2. le64 (b ! j) (b ! i))"
    by auto
  from o have 1: "le64 (b ! 0) (b ! 1)" by (auto dest!: spec [of _ 0])
  from t have 2: "\<forall>j<2. le64 (b ! j) (b ! 1)"
    by (auto simp: less_2_cases_iff dest!: spec [of _ 1])
  then have 3: "le64 (b ! 1) (b ! 1)" by simp
  from c m demo_scores_10 b l 1 3 show ?thesis by auto
qed

text \<open>
  C9. \<open>optimize\<close> never writes to an array that existed before the call, whatever its
  outcome: the caller's \<open>Y_train\<close> (and \<open>X_train\<close>) hold afterwards what they held
  before. In a successful round the report's \<open>Y_original_1\<close> and \<open>Y_original_2\<close> are
  new arrays holding the raw first and second response column, also when
  normalisation is enabled; the normalised columns are then further new arrays, the
  normalisations of the raw ones.
\<close>

theorem optimize_leaves_training_arrays:
  assumes allocated: "Y_train < next_free s"
  shows "heap (snd (optimize E w self X_train Y_train str_sampling_method num_samples seed s)) Y_train
           = heap s Y_train
       \<and> (\<forall>a<next_free s.
             heap (snd (optimize E w self X_train Y_train str_sampling_method num_samples seed s)) a
               = heap s a)
       \<and> (\<forall>p info s'.
             optimize E w self X_train Y_train str_sampling_method num_samples seed s
               = (Inr (p, info), s')
             \<longrightarrow> column 0 (heap s Y_train) = Inr (heap s' (Y_original_1 info))
               \<and> column 1 (heap s Y_train) = Inr (heap s' (Y_original_2 info))
               \<and> Y_original_1 info \<noteq> Y_train \<and> Y_original_2 info \<noteq> Y_train
               \<and> (normalize_Y self \<longrightarrow>
                     heap s' (Y_normalized_1 info) = normalize_min_max (heap s' (Y_original_1 info))
                   \<and> heap s' (Y_normalized_2 info) = normalize_min_max (heap s' (Y_original_2 info))
                   \<and> Y_normalized_1 info \<notin> {Y_train, Y_original_1 info, Y_original_2 info}
                   \<and> Y_normalized_2 info \<notin> {Y_train, Y_original_1 info, Y_original_2 info}))"
proof -
  from preserves_optimize [of E w self X_train Y_train str_sampling_method num_samples seed]
  have fr: "\<forall>a<next_free s.
             heap (snd (optimize E w self X_train Y_train str_sampling_method num_samples seed s)) a
               = heap s a"
    by (simp add: preserves_def frame_def)
  with allocated
  have 1: "heap (snd (optimize E w self X_train Y_train str_sampling_method num_samples seed s)) Y_train
           = heap s Y_train"
    by simp
  have 2: "column 0 (heap s Y_train) = Inr (heap s' (Y_original_1 info))
               \<and> column 1 (heap s Y_train) = Inr (heap s' (Y_original_2 info))
               \<and> Y_original_1 info \<noteq> Y_train \<and> Y_original_2 info \<noteq> Y_train
               \<and> (normalize_Y self \<longrightarrow>
                     heap s' (Y_normalized_1 info) = normalize_min_max (heap s' (Y_original_1 info))
                   \<and> heap s' (Y_normalized_2 info) = normalize_min_max (heap s' (Y_original_2 info))
                   \<and> Y_normalized_1 info \<notin> {Y_train, Y_original_1 info, Y_original_2 info}
                   \<and> Y_normalized_2 info \<notin> {Y_train, Y_original_1 info, Y_original_2 info})"
    if run: "optimize E w self X_train Y_train str_sampling_method num_samples seed s
               = (Inr (p, info), s')" for p info s'
    using optimize_Inr_responses [OF run] allocated by auto
  from 1 fr 2 show ?thesis by blast
qed

text \<open>The concrete round, with normalisation enabled.\<close>

theorem optimize_leaves_training_arrays_witness:
  "(1::nat) < next_free demo_state
   \<and> optimize demo_env demo_world demo_self 0 1 ''uniform'' 2 (Some 0) demo_state
       = (Inr ([10], demo_info), demo_final)
   \<and> normalize_Y demo_self
   \<and> heap demo_final 1 = heap demo_state 1
   \<and> heap demo_final (Y_original_1 demo_info) = Arr2 \<lparr>shape1 = 1, rows = [[5], [9]]\<rparr>
   \<and> heap demo_final (Y_original_2 demo_info) = Arr2 \<lparr>shape1 = 1, rows = [[7], [7]]\<rparr>
   \<and> heap demo_final (Y_normalized_1 demo_info) = Arr2 \<lparr>shape1 = 1, rows = [[0], [1]]\<rparr>"
proof -
  have a: "(1::nat) < next_free demo_state" by (simp add: demo_state_def)
  have n: "normalize_Y demo_self" by (simp add: demo_self_def)
  have c0: "column 0 (heap demo_state 1) = Inr (Arr2 \<lparr>shape1 = 1, rows = [[5], [9]]\<rparr>)"
    by (simp add: demo_state_def demo_Y_def)
  have c1: "column 1 (heap demo_state 1) = Inr (Arr2 \<lparr>shape1 = 1, rows = [[7], [7]]\<rparr>)"
    by (simp add: demo_state_def demo_Y_def)
  have n1: "heap demo_final (Y_normalized_1 demo_info) = Arr2 \<lparr>shape1 = 1, rows = [[0], [1]]\<rparr>"
    by (simp add: demo_final_def demo_info_def)
  from optimize_leaves_training_arrays [OF a, of demo_env demo_world demo_self 0 "''uniform''" 2 "Some 0"]
    demo_run c0 c1
  have "heap demo_final 1 = heap demo_state 1
   \<and> heap demo_final (Y_original_1 demo_info) = Arr2 \<lparr>shape1 = 1, rows = [[5], [9]]\<rparr>
   \<and> heap demo_final (Y_original_2 demo_info) = Arr2 \<lparr>shape1 = 1, rows = [[7], [7]]\<rparr>"
    by simp
  with a n n1 demo_run show ?thesis by simp
qed

text \<open>
  C10. With a valid training set, an allowed sampling method, a positive number of
  samples and both surrogate fits succeeding, \<open>optimize\<close> called with \<open>seed = None\<close>
  raises \<open>TypeError\<close> after the two fits and before any draw or sampling: the trace
  holds the two fits and nothing else. A round that returns a result was therefore
  given an integer seed.
\<close>

theorem optimize_without_seed:
  fixes E w self X_train Y_train str_sampling_method num_samples s
  defines "X \<equiv> heap s X_train" and "Y \<equiv> heap s Y_train"
  assumes valid: "length (shape X) = 2" "length (shape Y) = 2" "shape Y ! 1 = 2"
      "shape X ! 0 = shape Y ! 0" "shape X ! 1 = num_dim self" "0 < num_samples"
      "str_sampling_method \<in> set (ALLOWED_SAMPLING_METHOD E)"
    and cols: "column 0 Y = Inr c1" "column 1 Y = Inr c2"
    and fits: "fitted E w self X (if normalize_Y self then normalize_min_max c1 else c1) = Inr k1"
              "fitted E w self X (if normalize_Y self then normalize_min_max c2 else c2) = Inr k2"
  shows "fst (optimize E w self X_train Y_train str_sampling_method num_samples None s) = Inl TypeError
       \<and> trace (snd (optimize E w self X_train Y_train str_sampling_method num_samples None s))
           = trace s @ [Fit X (if normalize_Y self then normalize_min_max c1 else c1),
                        Fit X (if normalize_Y self then normalize_min_max c2 else c2)]
       \<and> (\<forall>seed r s'. optimize E w self X_train Y_train str_sampling_method num_samples seed s
                          = (Inr r, s') \<longrightarrow> seed \<noteq> None)"
proof -
  obtain cv1 iv1 h1 where k1: "k1 = (cv1, iv1, h1)" by (cases k1)
  obtain cv2 iv2 h2 where k2: "k2 = (cv2, iv2, h2)" by (cases k2)
  have run: "optimize E w self X_train Y_train str_sampling_method num_samples None s
      = (Inl TypeError,
         s\<lparr>ticks := ticks s + 4,
           heap := (if normalize_Y self
                    then (heap s)(next_free s := c1, Suc (next_free s) := c2,
                                  next_free s + 2 := normalize_min_max c1,
                                  next_free s + 3 := normalize_min_max c2)
                    else (heap s)(next_free s := c1, Suc (next_free s) := c2)),
           next_free := (if normalize_Y self then next_free s + 4 else next_free s + 2),
           trace := trace s @ [Fit X (if normalize_Y self then normalize_min_max c1 else c1),
                               Fit X (if normalize_Y self then normalize_min_max c2 else c2)]\<rparr>)"
  proof (cases "normalize_Y self")
    case True
    with valid cols fits show ?thesis
      unfolding X_def Y_def fitted_def k1 k2
      by (simp add: optimize_def run_simps eval_nat_numeral)
  next
    case False
    with valid cols fits show ?thesis
      unfolding X_def Y_def fitted_def k1 k2
      by (simp add: optimize_def run_simps eval_nat_numeral)
  qed
  have "seed \<noteq> None"
    if "optimize E w self X_train Y_train str_sampling_method num_samples seed s = (Inr r, s')"
    for seed r s'
  proof -
    obtain p info where "r = (p, info)" by (cases r)
    with that optimize_Inr [of E w self X_train Y_train str_sampling_method num_samples seed s p info s']
    show ?thesis by auto
  qed
  with run show ?thesis by simp
qed

text \<open>The concrete round with \<open>seed = None\<close>, and with \<open>seed = 0\<close>.\<close>

theorem optimize_without_seed_witness:
  "fst (optimize demo_env demo_world demo_self 0 1 ''uniform'' 2 None demo_state) = Inl TypeError
   \<and> trace (snd (optimize demo_env demo_world demo_self 0 1 ''uniform'' 2 None demo_state))
       = [Fit demo_X (Arr2 \<lparr>shape1 = 1, rows = [[0], [1]]\<rparr>),
          Fit demo_X (Arr2 \<lparr>shape1 = 1, rows = [[0], [0]]\<rparr>)]
   \<and> fst (optimize demo_env demo_world demo_self 0 1 ''uniform'' 2 (Some 0) demo_state)
       = Inr ([10], demo_info)"
proof -
  have n1: "normalize_min_max (Arr2 \<lparr>shape1 = 1, rows = [[5], [9]]\<rparr>) = Arr2 \<lparr>shape1 = 1, rows = [[0], [1]]\<rparr>"
    by (simp add: model_simps entries_def)
  have n2: "normalize_min_max (Arr2 \<lparr>shape1 = 1, rows = [[7], [7]]\<rparr>) = Arr2 \<lparr>shape1 = 1, rows = [[0], [0]]\<rparr>"
    by (simp add: model_simps entries_def)
  have "fst (optimize demo_env demo_world demo_self 0 1 ''uniform'' 2 None demo_state) = Inl TypeError
       \<and> trace (snd (optimize demo_env demo_world demo_self 0 1 ''uniform'' 2 None demo_state))
           = trace demo_state @ [Fit (heap demo_state 0) (if normalize_Y demo_self then normalize_min_max (Arr2 \<lparr>shape1 = 1, rows = [[5], [9]]\<rparr>) else Arr2 \<lparr>shape1 = 1, rows = [[5], [9]]\<rparr>),
                        Fit (heap demo_state 0) (if normalize_Y demo_self then normalize_min_max (Arr2 \<lparr>shape1 = 1, rows = [[7], [7]]\<rparr>) else Arr2 \<lparr>shape1 = 1, rows = [[7], [7]]\<rparr>)]
       \<and> (\<forall>seed r s'. optimize demo_env demo_world demo_self 0 1 ''uniform'' 2 seed demo_state
                          = (Inr r, s') \<longrightarrow> seed \<noteq> None)"
    by (rule optimize_without_seed [where ?k1.0 = "(demo_cov (Arr2 \<lparr>shape1 = 1, rows = [[0], [1]]\<rparr>), demo_cov (Arr2 \<lparr>shape1 = 1, rows = [[0], [1]]\<rparr>), demo_hyps)"
                and ?k2.0 = "(demo_cov (Arr2 \<lparr>shape1 = 1, rows = [[0], [0]]\<rparr>), demo_cov (Arr2 \<lparr>shape1 = 1, rows = [[0], [0]]\<rparr>), demo_hyps)"])
       (simp_all add: demo_state_def demo_X_def demo_Y_def demo_self_def num_dim_def fitted_def
          demo_env_def demo_cov_def entries_def normalize_min_max_def map_entries_def min_max_value_def
          min_max_value64_def fl64_int)
  with n1 n2 demo_run show ?thesis
    by (simp add: demo_state_def demo_self_def)
qed

end
